theory Spec2Isabelle
  imports Main "HOL-Library.Multiset"
begin

section \<open>The notebooks as programs\<close>

text \<open>
  The repository consists of Jupyter notebooks. The code of a notebook is the sequence of its
  code cells, and the code of a cell is a sequence of Python statements. The statements are
  embedded as abstract syntax, one constructor for each syntactic form of Python that matters
  here: the forms the notebooks are written in, and the forms (conditionals, loops, handlers,
  definitions) whose absence is a property of the notebooks.
\<close>

subsection \<open>Abstract syntax\<close>

text \<open>
  A literal. \<open>CDec m k\<close> is the decimal literal with mantissa \<open>m\<close> and \<open>k\<close> digits after
  the point (\<open>.8\<close> is \<open>CDec 8 1\<close>); a literal preceded by a minus sign is the negative constant;
  \<open>CNone\<close> is \<open>None\<close>, which is also the value of an omitted slice bound.
\<close>

datatype const = CInt int | CDec int nat | CStr string | CBool bool | CNone

text \<open>
  Expressions. A keyword argument \<open>name=value\<close> is the element \<open>Kw name value\<close> of the
  argument list of its call, at its place in the source. A subscript \<open>a[lo:hi]\<close> is
  \<open>Subscript a (Slice lo hi)\<close> and \<open>a[i, j]\<close> is \<open>Subscript a (Tuple [i, j])\<close>.
  \<open>Invert\<close> is the unary operator \<open>~\<close>. The last four constructors are the expression
  forms that compute, branch, iterate or define: binary operators and comparisons,
  conditional expressions, lambdas and comprehensions.
\<close>

datatype expr =
    Name string
  | Const const
  | Attr expr string
  | Call expr "expr list"
  | Kw string expr
  | Subscript expr expr
  | Slice expr expr
  | Tuple "expr list"
  | Invert expr
  | BinOp string expr expr
  | IfExp expr expr expr
  | Lambda "string list" expr
  | ListComp expr string expr

abbreviation SConst :: "string \<Rightarrow> expr" where "SConst x \<equiv> Const (CStr x)"
abbreviation IConst :: "int \<Rightarrow> expr" where "IConst n \<equiv> Const (CInt n)"
abbreviation BConst :: "bool \<Rightarrow> expr" where "BConst b \<equiv> Const (CBool b)"

text \<open>The method call \<open>e.m(args)\<close> is the call of the attribute \<open>m\<close> of \<open>e\<close>.\<close>

abbreviation Method :: "expr \<Rightarrow> string \<Rightarrow> expr list \<Rightarrow> expr" where
  "Method e m args \<equiv> Call (Attr e m) args"

text \<open>
  Statements. \<open>Import m a\<close> is \<open>import m as a\<close>, \<open>ImportFrom m n\<close> is
  \<open>from m import n\<close>, \<open>Magic\<close> is an IPython line magic (\<open>%matplotlib inline\<close>),
  \<open>Assign target value\<close> is \<open>target = value\<close>, \<open>Expr\<close> is an expression statement and
  \<open>With e x body\<close> is \<open>with e as x: body\<close>. \<open>Try body handler\<close> is
  \<open>try: body except: handler\<close>.
\<close>

datatype stmt =
    Import string string
  | ImportFrom string string
  | Magic string
  | Assign expr expr
  | Expr expr
  | With expr string "stmt list"
  | If expr "stmt list" "stmt list"
  | While expr "stmt list"
  | For expr expr "stmt list"
  | Try "stmt list" "stmt list"
  | FunctionDef string "string list" "stmt list"
  | ClassDef string "stmt list"

type_synonym cell = "stmt list"
type_synonym notebook = "cell list"

subsection \<open>The four notebooks\<close>

text \<open>
  Each definition lists the code cells of one notebook in order, a cell as the list of its
  statements (markdown cells carry no code). \<open>part_000\<close> reads a Kepler target pixel file
  with astropy and shows its images; \<open>part_001\<close> searches the light curve of Kepler-69 for
  transiting planets; the other two carry the names of their files. The cell of
  \<open>kepler_plotting_target_pixel_files\<close> that holds only a comment is the empty list.
\<close>

definition part_000 :: notebook where
  "part_000 = [
    [Magic ''matplotlib inline'',
     Import ''numpy'' ''np'',
     ImportFrom ''astropy.io'' ''fits'',
     ImportFrom ''astropy.table'' ''Table'',
     Import ''matplotlib.pyplot'' ''plt''],
    [ImportFrom ''astroquery.mast'' ''Mast'',
     ImportFrom ''astroquery.mast'' ''Observations''],
    [Assign (Name ''keplerObs'') (Method
       (Name ''Observations'') ''query_criteria'' [Kw ''target_name''
       (SConst ''kplr008957091''), Kw ''obs_collection'' (SConst ''Kepler'')]),
     Assign (Name ''keplerProds'') (Method (Name ''Observations'') ''get_product_list'' [Subscript
       (Name ''keplerObs'') (IConst 0)]),
     Assign (Name ''yourProd'') (Method
       (Name ''Observations'') ''filter_products'' [Name ''keplerProds'',
       Kw ''extension'' (SConst ''kplr008957091-2012277125453_lpd-targ.fits.gz''),
       Kw ''mrp_only'' (BConst False)]),
     Expr (Name ''yourProd'')],
    [Expr (Method (Name ''Observations'') ''download_products'' [Name ''yourProd'',
       Kw ''mrp_only'' (BConst False), Kw ''cache'' (BConst False)])],
    [Assign (Name ''filename'')
       (SConst ''./mastDownload/Kepler/kplr008957091_lc_Q000000000011111111/kplr008957091-2012277125453_lpd-targ.fits.gz''),
     Expr (Method (Name ''fits'') ''info'' [Name ''filename''])],
    [With (Method (Name ''fits'') ''open'' [Name ''filename'']) ''hdulist'' [Assign
       (Name ''header1'') (Attr (Subscript (Name ''hdulist'') (IConst 1)) ''header'')],
     Expr (Call (Name ''print'') [Call (Name ''repr'') [Subscript (Name ''header1'') (Slice
       (IConst 1) (IConst 25))]])],
    [With (Method (Name ''fits'') ''open'' [Name ''filename'']) ''hdulist'' [Assign
       (Name ''binaryext'') (Attr (Subscript (Name ''hdulist'') (IConst 1)) ''data'')],
     Assign (Name ''binarytab'') (Call (Name ''Table'') [Name ''binaryext'']),
     Expr (Subscript (Name ''binarytab'') (Slice (IConst 0) (IConst 4)))],
    [Expr (Call (Name ''print'') [Call (Name ''len'') [Subscript (Name ''binarytab'')
       (SConst ''TIME'')]])],
    [Expr (Subscript (Subscript (Name ''binarytab'') (SConst ''FLUX'')) (IConst 0))],
    [Expr (Method (Name ''plt'') ''title'' [SConst ''Flux Row 0'']),
     Expr (Method (Name ''plt'') ''xlabel'' [SConst ''Column'']),
     Expr (Method (Name ''plt'') ''ylabel'' [SConst ''Row'']),
     Expr (Method (Name ''plt'') ''imshow'' [Subscript (Subscript (Name ''binarytab'')
       (SConst ''FLUX'')) (IConst 0), Kw ''cmap'' (Attr (Attr
       (Name ''plt'') ''cm'') ''YlGnBu_r'')]),
     Expr (Method (Name ''plt'') ''colorbar'' []),
     Expr (Method (Name ''plt'') ''clim'' [IConst 0, IConst 300])],
    [Expr (Subscript (Subscript (Name ''binarytab'') (SConst ''FLUX'')) (IConst 34))],
    [Expr (Method (Name ''plt'') ''title'' [SConst ''Flux Row 34'']),
     Expr (Method (Name ''plt'') ''xlabel'' [SConst ''column'']),
     Expr (Method (Name ''plt'') ''ylabel'' [SConst ''row'']),
     Expr (Method (Name ''plt'') ''imshow'' [Subscript (Subscript (Name ''binarytab'')
       (SConst ''FLUX'')) (IConst 34),
       Kw ''cmap'' (Attr (Attr (Name ''plt'') ''cm'') ''YlGnBu_r'')]),
     Expr (Method (Name ''plt'') ''colorbar'' []),
     Expr (Method (Name ''plt'') ''clim'' [IConst 0, IConst 300])],
    [Assign (Name ''arr'') (Method (Name ''np'') ''subtract'' [Subscript (Subscript
       (Name ''binarytab'') (SConst ''FLUX'')) (IConst 28),
       Subscript (Subscript (Name ''binarytab'') (SConst ''FLUX'')) (IConst 29)]),
     Expr (Call (Name ''print'') [Name ''arr''])],
    [Expr (Method (Name ''plt'') ''title'' [SConst ''Flux Row 28 minus 29'']),
     Expr (Method (Name ''plt'') ''xlabel'' [SConst ''Column'']),
     Expr (Method (Name ''plt'') ''ylabel'' [SConst ''Row'']),
     Expr (Method (Name ''plt'') ''imshow'' [Name ''arr'',
       Kw ''cmap'' (Attr (Attr (Name ''plt'') ''cm'') ''YlGnBu_r'')]),
     Expr (Method (Name ''plt'') ''colorbar'' []),
     Expr (Method (Name ''plt'') ''clim'' [IConst (- 4), IConst 12])],
    [With (Method (Name ''fits'') ''open'' [Name ''filename'']) ''hdulist'' [Assign
       (Name ''imgdata'') (Attr (Subscript (Name ''hdulist'') (IConst 2)) ''data'')],
     Expr (Call (Name ''print'') [Name ''imgdata''])],
    [Expr (Method (Name ''plt'') ''figure'' []),
     Expr (Method (Name ''plt'') ''title'' [SConst ''TPF APERTURE'']),
     Expr (Method (Name ''plt'') ''xlabel'' [SConst ''Column'']),
     Expr (Method (Name ''plt'') ''ylabel'' [SConst ''Row'']),
     Expr (Method (Name ''plt'') ''imshow'' [Name ''imgdata'',
       Kw ''cmap'' (Attr (Attr (Name ''plt'') ''cm'') ''YlGnBu_r'')])]
  ]"

definition part_001 :: notebook where
  "part_001 = [
    [Import ''lightkurve'' ''lk'',
     Magic ''matplotlib inline''],
    [Assign (Name ''search_result'') (Method
       (Name ''lk'') ''search_lightcurve'' [SConst ''Kepler-69'',
       Kw ''author'' (SConst ''Kepler''), Kw ''cadence'' (SConst ''long'')]),
     Assign (Name ''lc_collection'') (Method (Name ''search_result'') ''download_all'' []),
     Expr (Method (Name ''lc_collection'') ''plot'' [])],
    [Expr (Name ''search_result'')],
    [Assign (Name ''lc'') (Method (Method (Method
       (Name ''lc_collection'') ''stitch'' []) ''flatten'' [Kw ''window_length''
       (IConst 901)]) ''remove_outliers'' []),
     Expr (Method (Name ''lc'') ''plot'' [])],
    [Import ''numpy'' ''np'',
     Assign (Name ''period'') (Method (Name ''np'') ''linspace'' [IConst 1, IConst 20, IConst 10000]),
     Assign (Name ''bls'') (Method (Name ''lc'') ''to_periodogram'' [Kw ''method'' (SConst ''bls''),
       Kw ''period'' (Name ''period''), Kw ''frequency_factor'' (IConst 100)]),
     Expr (Method (Name ''bls'') ''plot'' [])],
    [Assign (Name ''planet_b_period'') (Attr (Name ''bls'') ''period_at_max_power''),
     Assign (Name ''planet_b_t0'') (Attr (Name ''bls'') ''transit_time_at_max_power''),
     Assign (Name ''planet_b_dur'') (Attr (Name ''bls'') ''duration_at_max_power''),
     Expr (Name ''planet_b_period'')],
    [Assign (Name ''ax'') (Method (Method (Name ''lc'') ''fold'' [Kw ''period''
       (Name ''planet_b_period''), Kw ''epoch_time'' (Name ''planet_b_t0'')]) ''scatter'' []),
     Expr (Method (Name ''ax'') ''set_xlim'' [IConst (- 5), IConst 5])],
    [Assign (Name ''planet_b_mask'') (Method (Name ''bls'') ''get_transit_mask'' [Kw ''period''
       (Name ''planet_b_period''), Kw ''transit_time'' (Name ''planet_b_t0''),
       Kw ''duration'' (Name ''planet_b_dur'')])],
    [Assign (Name ''masked_lc'') (Subscript (Name ''lc'') (Invert (Name ''planet_b_mask''))),
     Assign (Name ''ax'') (Method (Name ''masked_lc'') ''scatter'' []),
     Expr (Method (Subscript (Name ''lc'') (Name ''planet_b_mask'')) ''scatter'' [Kw ''ax''
       (Name ''ax''), Kw ''c'' (SConst ''r''), Kw ''label'' (SConst ''Masked'')])],
    [Assign (Name ''planet_b_model'') (Method (Name ''bls'') ''get_transit_model'' [Kw ''period''
       (Name ''planet_b_period''), Kw ''transit_time'' (Name ''planet_b_t0''),
       Kw ''duration'' (Name ''planet_b_dur'')])],
    [Assign (Name ''ax'') (Method (Method (Name ''lc'') ''fold'' [Name ''planet_b_period'',
       Name ''planet_b_t0'']) ''scatter'' []),
     Expr (Method (Method (Name ''planet_b_model'') ''fold'' [Name ''planet_b_period'',
       Name ''planet_b_t0'']) ''plot'' [Kw ''ax'' (Name ''ax''), Kw ''c'' (SConst ''r''),
       Kw ''lw'' (IConst 2)]),
     Expr (Method (Name ''ax'') ''set_xlim'' [IConst (- 5), IConst 5])],
    [Assign (Name ''period'') (Method (Name ''np'') ''linspace'' [IConst 1, IConst 300,
       IConst 10000]),
     Assign (Name ''bls'') (Method (Name ''masked_lc'') ''to_periodogram'' [SConst ''bls'',
       Kw ''period'' (Name ''period'')]),
     Expr (Method (Name ''bls'') ''plot'' [])],
    [Assign (Name ''planet_c_period'') (Attr (Name ''bls'') ''period_at_max_power''),
     Assign (Name ''planet_c_t0'') (Attr (Name ''bls'') ''transit_time_at_max_power''),
     Assign (Name ''planet_c_dur'') (Attr (Name ''bls'') ''duration_at_max_power''),
     Expr (Name ''planet_c_period'')],
    [Assign (Name ''ax'') (Method (Method (Name ''masked_lc'') ''fold'' [Name ''planet_c_period'',
       Name ''planet_c_t0'']) ''scatter'' []),
     Expr (Method (Method (Method (Name ''masked_lc'') ''fold'' [Name ''planet_c_period'',
       Name ''planet_c_t0'']) ''bin'' [Const (CDec 1 1)]) ''plot'' [Kw ''ax'' (Name ''ax''),
       Kw ''c'' (SConst ''r''), Kw ''lw'' (IConst 2), Kw ''label'' (SConst ''Binned Flux'')]),
     Expr (Method (Name ''ax'') ''set_xlim'' [IConst (- 5), IConst 5])],
    [Assign (Name ''planet_c_model'') (Method (Name ''bls'') ''get_transit_model'' [Kw ''period''
       (Name ''planet_c_period''), Kw ''transit_time'' (Name ''planet_c_t0''),
       Kw ''duration'' (Name ''planet_c_dur'')])],
    [Assign (Name ''ax'') (Method (Name ''lc'') ''scatter'' []),
     Expr (Method (Name ''planet_b_model'') ''plot'' [Kw ''ax'' (Name ''ax''),
       Kw ''c'' (SConst ''dodgerblue''), Kw ''label'' (SConst ''Planet b Transit Model'')]),
     Expr (Method (Name ''planet_c_model'') ''plot'' [Kw ''ax'' (Name ''ax''),
       Kw ''c'' (SConst ''r''), Kw ''label'' (SConst ''Planet c Transit Model'')])],
    [Expr (Method (Name ''lk'') ''show_citation_instructions'' [])]
  ]"

definition kepler_plotting_target_pixel_files :: notebook where
  "kepler_plotting_target_pixel_files = [
    [Import ''lightkurve'' ''lk'',
     Import ''matplotlib.pyplot'' ''plt'',
     Magic ''matplotlib inline''],
    [Assign (Name ''search_result'') (Method
       (Name ''lk'') ''search_targetpixelfile'' [SConst ''Kepler-8'',
       Kw ''mission'' (SConst ''Kepler''), Kw ''quarter'' (IConst 4)]),
     Expr (Name ''search_result'')],
    [Assign (Name ''tpf'') (Method (Name ''search_result'') ''download'' [])],
    [Assign (Name ''first_cadence'') (Subscript (Name ''tpf'') (IConst 0)),
     Expr (Name ''first_cadence'')],
    [Expr (Attr (Attr (Name ''first_cadence'') ''flux'') ''value'')],
    [Expr (Method (Name ''first_cadence'') ''plot'' [Kw ''column'' (SConst ''flux'')])],
    [Assign (Tuple [Name ''fig'', Name ''axes'']) (Method (Name ''plt'') ''subplots'' [IConst 2,
       IConst 2, Kw ''figsize'' (Tuple [IConst 16, IConst 16])]),
     Expr (Method (Name ''first_cadence'') ''plot'' [Kw ''ax'' (Subscript (Name ''axes'')
       (Tuple [IConst 0, IConst 0])), Kw ''column'' (SConst ''FLUX'')]),
     Expr (Method (Name ''first_cadence'') ''plot'' [Kw ''ax'' (Subscript (Name ''axes'')
       (Tuple [IConst 0, IConst 1])), Kw ''column'' (SConst ''FLUX_BKG'')]),
     Expr (Method (Name ''first_cadence'') ''plot'' [Kw ''ax'' (Subscript (Name ''axes'')
       (Tuple [IConst 1, IConst 0])), Kw ''column'' (SConst ''FLUX_ERR'')]),
     Expr (Method (Name ''first_cadence'') ''plot'' [Kw ''ax'' (Subscript (Name ''axes'')
       (Tuple [IConst 1, IConst 1])), Kw ''column'' (SConst ''FLUX_BKG_ERR'')])],
    [Expr (Method (Name ''first_cadence'') ''plot'' [Kw ''bkg'' (BConst True)])],
    [Expr (Attr (Name ''first_cadence'') ''pipeline_mask'')],
    [Expr (Method (Name ''first_cadence'') ''plot'' [Kw ''aperture_mask'' (Attr
       (Name ''first_cadence'') ''pipeline_mask'')])],
    [Assign (Name ''lc'') (Method (Name ''tpf'') ''to_lightcurve'' [])],
    [Expr (Name ''lc'')],
    [Expr (Method (Name ''lc'') ''plot'' [])],
    [Assign (Name ''bkg'') (Method (Name ''tpf'') ''get_bkg_lightcurve'' []),
     Expr (Method (Name ''bkg'') ''plot'' [])],
    [],
    [Assign (Name ''datalist'') (Method
       (Name ''lk'') ''search_targetpixelfile'' [SConst ''Kepler-10'']),
     Expr (Name ''datalist'')],
    [Assign (Name ''kep'') (Method (Subscript (Name ''datalist'') (IConst 6)) ''download'' []),
     Assign (Name ''tes'') (Method (Subscript (Name ''datalist'') (IConst 15)) ''download'' [])],
    [Assign (Tuple [Name ''fig'', Name ''axes'']) (Method (Name ''plt'') ''subplots'' [IConst 1,
       IConst 2, Kw ''figsize'' (Tuple [IConst 14, IConst 6])]),
     Expr (Method (Name ''kep'') ''plot'' [Kw ''ax'' (Subscript (Name ''axes'') (IConst 0)),
       Kw ''aperture_mask'' (Attr (Name ''kep'') ''pipeline_mask''),
       Kw ''scale'' (SConst ''log'')]),
     Expr (Method (Name ''tes'') ''plot'' [Kw ''ax'' (Subscript (Name ''axes'') (IConst 1)),
       Kw ''aperture_mask'' (Attr (Name ''tes'') ''pipeline_mask'')]),
     Expr (Method (Name ''fig'') ''tight_layout'' [])],
    [Assign (Name ''lc_kep'') (Method (Name ''kep'') ''to_lightcurve'' []),
     Assign (Name ''lc_tes'') (Method (Name ''tes'') ''to_lightcurve'' [])],
    [Assign (Tuple [Name ''fig'', Name ''axes'']) (Method (Name ''plt'') ''subplots'' [IConst 1,
       IConst 2, Kw ''figsize'' (Tuple [IConst 14, IConst 6]), Kw ''sharey'' (BConst True)]),
     Expr (Method (Method (Name ''lc_kep'') ''flatten'' []) ''plot'' [Kw ''ax'' (Subscript
       (Name ''axes'') (IConst 0)), Kw ''c'' (SConst ''k''), Kw ''alpha'' (Const (CDec 8 1))]),
     Expr (Method (Method (Name ''lc_tes'') ''flatten'' []) ''plot'' [Kw ''ax'' (Subscript
       (Name ''axes'') (IConst 1)), Kw ''c'' (SConst ''k''), Kw ''alpha'' (Const (CDec 8 1))])]
  ]"

definition kepler_creating_your_own_light_curves :: notebook where
  "kepler_creating_your_own_light_curves = [
    [Import ''lightkurve'' ''lk'',
     Import ''numpy'' ''np'',
     Magic ''matplotlib inline''],
    [Assign (Name ''tpf_example'') (Method (Method
       (Name ''lk'') ''search_targetpixelfile'' [SConst ''KIC 7461601'',
       Kw ''mission'' (SConst ''Kepler''), Kw ''cadence'' (SConst ''long''),
       Kw ''quarter'' (IConst 10)]) ''download'' [])],
    [Expr (Method (Name ''tpf_example'') ''plot'' [])],
    [Expr (Method (Name ''tpf_example'') ''plot'' [Kw ''aperture_mask'' (SConst ''pipeline'')])],
    [Assign (Name ''tpf'') (Method (Method
       (Name ''lk'') ''search_targetpixelfile'' [SConst ''KIC 2437317'',
       Kw ''mission'' (SConst ''Kepler''), Kw ''cadence'' (SConst ''long''),
       Kw ''quarter'' (IConst 10)]) ''download'' [Kw ''quality_bitmask'' (SConst ''hard'')])],
    [Expr (Method (Name ''tpf'') ''plot'' [])],
    [Expr (Method (Name ''tpf'') ''plot'' [Kw ''aperture_mask'' (SConst ''pipeline'')])],
    [Assign (Name ''lc'') (Method (Name ''tpf'') ''to_lightcurve'' [Kw ''aperture_mask''
       (SConst ''pipeline'')]),
     Expr (Method (Name ''lc'') ''plot'' [])],
    [Assign (Name ''ax'') (Method (Method (Method
       (Name ''tpf'') ''to_lightcurve'' [Kw ''aperture_mask''
       (SConst ''pipeline'')]) ''normalize'' []) ''plot'' [Kw ''label'' (SConst ''pipeline''),
       Kw ''linewidth'' (IConst 2)]),
     Expr (Method (Method (Method (Name ''tpf'') ''to_lightcurve'' [Kw ''aperture_mask''
       (SConst ''threshold'')]) ''normalize'' []) ''plot'' [Kw ''ax'' (Name ''ax''),
       Kw ''label'' (SConst ''threshold''), Kw ''linewidth'' (IConst 2)]),
     Expr (Method (Method (Method (Name ''tpf'') ''to_lightcurve'' [Kw ''aperture_mask''
       (SConst ''all'')]) ''normalize'' []) ''plot'' [Kw ''ax'' (Name ''ax''),
       Kw ''label'' (SConst ''all''), Kw ''linewidth'' (IConst 2)])],
    [Expr (Method (Name ''tpf'') ''create_threshold_mask'' [])],
    [Assign (Name ''custom_threshold_mask'') (Method
       (Name ''tpf'') ''create_threshold_mask'' [Kw ''threshold'' (IConst 1)]),
     Expr (Name ''custom_threshold_mask'')],
    [Assign (Name ''ax'') (Method (Method (Method
       (Name ''tpf'') ''to_lightcurve'' [Kw ''aperture_mask''
       (SConst ''pipeline'')]) ''normalize'' []) ''plot'' [Kw ''label'' (SConst ''pipeline''),
       Kw ''alpha'' (Const (CDec 3 1))]),
     Expr (Method (Method (Method (Name ''tpf'') ''to_lightcurve'' [Kw ''aperture_mask''
       (SConst ''threshold'')]) ''normalize'' []) ''plot'' [Kw ''ax'' (Name ''ax''),
       Kw ''label'' (SConst ''threshold''), Kw ''alpha'' (Const (CDec 3 1))]),
     Expr (Method (Method (Method (Name ''tpf'') ''to_lightcurve'' [Kw ''aperture_mask''
       (SConst ''all'')]) ''normalize'' []) ''plot'' [Kw ''ax'' (Name ''ax''),
       Kw ''label'' (SConst ''all''), Kw ''alpha'' (Const (CDec 3 1))]),
     Expr (Method (Method (Method (Name ''tpf'') ''to_lightcurve'' [Kw ''aperture_mask''
       (Name ''custom_threshold_mask'')]) ''normalize'' []) ''plot'' [Kw ''ax'' (Name ''ax''),
       Kw ''label'' (SConst ''custom threshold''), Kw ''linewidth'' (IConst 2)])],
    [Assign (Name ''tpf_crowded'') (Method (Method
       (Name ''lk'') ''search_targetpixelfile'' [SConst ''KIC 2437901'',
       Kw ''mission'' (SConst ''Kepler''), Kw ''cadence'' (SConst ''long''),
       Kw ''quarter'' (IConst 10)]) ''download'' [Kw ''quality_bitmask'' (SConst ''hard'')])],
    [Expr (Method (Name ''tpf_crowded'') ''plot'' [Kw ''aperture_mask'' (SConst ''pipeline'')])],
    [Expr (Method (Name ''tpf_crowded'') ''create_threshold_mask'' [Kw ''threshold'' (IConst 1)])],
    [Expr (Method (Name ''tpf_crowded'') ''plot'' [Kw ''aperture_mask'' (Method
       (Name ''tpf_crowded'') ''create_threshold_mask'' [Kw ''threshold'' (IConst 1)])])],
    [Assign (Name ''custom_mask'') (Method
       (Name ''tpf_crowded'') ''create_threshold_mask'' [Kw ''threshold'' (IConst 1),
       Kw ''reference_pixel'' (Tuple [IConst 7, IConst 7])]),
     Expr (Method (Name ''tpf_crowded'') ''plot'' [Kw ''aperture_mask'' (Name ''custom_mask'')])],
    [Assign (Name ''lc_background_star'') (Method
       (Name ''tpf_crowded'') ''to_lightcurve'' [Kw ''aperture_mask'' (Name ''custom_mask'')]),
     Expr (Method (Name ''lc_background_star'') ''plot'' [])],
    [Assign (Name ''custom_mask'') (Method (Name ''np'') ''zeros'' [Subscript (Attr (Subscript
       (Name ''tpf_crowded'') (IConst 0)) ''shape'') (Slice (IConst 1) (Const CNone)),
       Kw ''dtype'' (SConst ''bool'')]),
     Assign (Subscript (Name ''custom_mask'') (Tuple [Slice (IConst (- 3)) (Const CNone),
       Slice (IConst 5) (Const CNone)])) (BConst True),
     Expr (Name ''custom_mask'')],
    [Expr (Method (Name ''tpf_crowded'') ''plot'' [Kw ''aperture_mask'' (Name ''custom_mask'')])],
    [Expr (Method (Name ''tpf_crowded'') ''plot'' [])],
    [Assign (Name ''tpf_cut'') (Method (Name ''tpf_crowded'') ''cutout'' [Kw ''center''
       (Tuple [IConst 8, IConst 7])])],
    [Expr (Method (Name ''tpf_cut'') ''plot'' [])],
    [Expr (Method (Name ''tpf_cut'') ''create_threshold_mask'' [Kw ''threshold'' (IConst 1)])],
    [Assign (Name ''cut_mask'') (Method (Name ''np'') ''zeros'' [Subscript (Attr (Subscript
       (Name ''tpf_cut'') (IConst 0)) ''shape'') (Slice (IConst 1) (Const CNone)),
       Kw ''dtype'' (SConst ''bool'')]),
     Assign (Subscript (Name ''cut_mask'') (Tuple [Slice (Const CNone) (Const CNone),
       IConst 1])) (BConst True),
     Assign (Subscript (Name ''cut_mask'') (Tuple [IConst 1, IConst 2])) (BConst True),
     Expr (Name ''cut_mask'')],
    [Expr (Method (Name ''tpf_cut'') ''plot'' [Kw ''aperture_mask'' (Name ''cut_mask'')])],
    [Assign (Name ''lc_background_star_cut'') (Method
       (Name ''tpf_cut'') ''to_lightcurve'' [Kw ''aperture_mask'' (Name ''cut_mask'')]),
     Expr (Method (Name ''lc_background_star_cut'') ''plot'' [])],
    [Expr (Method (Name ''lk'') ''show_citation_instructions'' [])]
  ]"

definition notebooks :: "notebook list" where
  "notebooks = [part_000, part_001, kepler_plotting_target_pixel_files,
     kepler_creating_your_own_light_curves]"

section \<open>Execution\<close>

text \<open>
  Everything a notebook does beyond naming values is done by code outside the repository:
  importing a module, reading an attribute, calling, subscripting, storing into a subscript,
  inverting and entering or leaving a \<open>with\<close> block all dispatch to the object at hand,
  which comes from astropy, astroquery, lightkurve, matplotlib, numpy or the Python runtime.
  That code is a parameter of the model: a \<open>library\<close> maps an operation, its operands and the
  state of the outside world (archive, file system, figures, heap of library objects) to a
  result or an exception, and to the new state of the world.
\<close>

datatype exn = NameError string | UnpackError | LibraryError string | OutsideFragment

datatype val =
    VConst const
  | VTuple "val list"
  | VSlice val val
  | VKw string val
  | VBuiltin string
  | VObj nat
  | VArray "val list"

datatype op =
    ImportOp string
  | MagicOp string
  | GetAttr string
  | SetAttr string
  | CallOp string
  | GetItem
  | SetItem
  | InvertOp
  | CtxEnter
  | CtxExit

type_synonym event = "op \<times> val list \<times> (exn + val)"

type_synonym 'w library = "op \<Rightarrow> val list \<Rightarrow> 'w \<Rightarrow> (exn + val) \<times> 'w"

text \<open>
  The state of a run: the notebook's global variables, the outside world, and the record of
  the library operations issued so far, each with its operands and its outcome.
\<close>

record 'w state =
  env :: "string \<rightharpoonup> val"
  world :: 'w
  trace :: "event list"

definition bind :: "string \<Rightarrow> val \<Rightarrow> 'w state \<Rightarrow> 'w state" where
  "bind x v s = s\<lparr>env := (env s)(x \<mapsto> v)\<rparr>"

definition call :: "'w library \<Rightarrow> op \<Rightarrow> val list \<Rightarrow> 'w state \<Rightarrow> (exn + val) \<times> 'w state" where
  "call ext p args s =
     (case ext p args (world s) of
        (r, w) \<Rightarrow> (r, s\<lparr>world := w, trace := trace s @ [(p, args, r)]\<rparr>))"

text \<open>The name under which a call is recorded: the attribute or the variable called.\<close>

fun callee_name :: "expr \<Rightarrow> string" where
  "callee_name (Attr e a) = a"
| "callee_name (Name f) = f"
| "callee_name _ = []"

text \<open>
  Expressions are evaluated as Python does: the callee before the arguments, arguments and
  tuple elements from left to right, the subscripted object before the subscript. A name that
  is not bound raises \<open>NameError\<close>; an exception ends the evaluation at once. The expression
  forms that no notebook uses have no semantics here: they end the run with
  \<open>OutsideFragment\<close>.
\<close>

fun eval :: "'w library \<Rightarrow> expr \<Rightarrow> 'w state \<Rightarrow> (exn + val) \<times> 'w state"
  and evals :: "'w library \<Rightarrow> expr list \<Rightarrow> 'w state \<Rightarrow> (exn + val list) \<times> 'w state"
where
  "eval ext (Name x) s =
     (case env s x of None \<Rightarrow> (Inl (NameError x), s) | Some v \<Rightarrow> (Inr v, s))"
| "eval ext (Const c) s = (Inr (VConst c), s)"
| "eval ext (Attr e a) s =
     (case eval ext e s of
        (Inl x, s1) \<Rightarrow> (Inl x, s1)
      | (Inr v, s1) \<Rightarrow> call ext (GetAttr a) [v] s1)"
| "eval ext (Call f args) s =
     (case eval ext f s of
        (Inl x, s1) \<Rightarrow> (Inl x, s1)
      | (Inr fv, s1) \<Rightarrow>
          (case evals ext args s1 of
             (Inl x, s2) \<Rightarrow> (Inl x, s2)
           | (Inr vs, s2) \<Rightarrow> call ext (CallOp (callee_name f)) (fv # vs) s2))"
| "eval ext (Kw k e) s =
     (case eval ext e s of
        (Inl x, s1) \<Rightarrow> (Inl x, s1)
      | (Inr v, s1) \<Rightarrow> (Inr (VKw k v), s1))"
| "eval ext (Subscript e i) s =
     (case eval ext e s of
        (Inl x, s1) \<Rightarrow> (Inl x, s1)
      | (Inr v, s1) \<Rightarrow>
          (case eval ext i s1 of
             (Inl x, s2) \<Rightarrow> (Inl x, s2)
           | (Inr iv, s2) \<Rightarrow> call ext GetItem [v, iv] s2))"
| "eval ext (Slice lo hi) s =
     (case eval ext lo s of
        (Inl x, s1) \<Rightarrow> (Inl x, s1)
      | (Inr l, s1) \<Rightarrow>
          (case eval ext hi s1 of
             (Inl x, s2) \<Rightarrow> (Inl x, s2)
           | (Inr h, s2) \<Rightarrow> (Inr (VSlice l h), s2)))"
| "eval ext (Tuple es) s =
     (case evals ext es s of
        (Inl x, s1) \<Rightarrow> (Inl x, s1)
      | (Inr vs, s1) \<Rightarrow> (Inr (VTuple vs), s1))"
| "eval ext (Invert e) s =
     (case eval ext e s of
        (Inl x, s1) \<Rightarrow> (Inl x, s1)
      | (Inr v, s1) \<Rightarrow> call ext InvertOp [v] s1)"
| "eval ext (BinOp b l r) s = (Inl OutsideFragment, s)"
| "eval ext (IfExp c a b) s = (Inl OutsideFragment, s)"
| "eval ext (Lambda ps e) s = (Inl OutsideFragment, s)"
| "eval ext (ListComp e x xs) s = (Inl OutsideFragment, s)"
| "evals ext [] s = (Inr [], s)"
| "evals ext (e # es) s =
     (case eval ext e s of
        (Inl x, s1) \<Rightarrow> (Inl x, s1)
      | (Inr v, s1) \<Rightarrow>
          (case evals ext es s1 of
             (Inl x, s2) \<Rightarrow> (Inl x, s2)
           | (Inr vs, s2) \<Rightarrow> (Inr (v # vs), s2)))"

text \<open>
  Assignment of a value to a target. A name is bound; a tuple of targets takes the
  components of a tuple of the same length, and raises otherwise, as unpacking does; a
  subscript target stores into the object, which is the library's \<open>__setitem__\<close>.
\<close>

fun assign :: "'w library \<Rightarrow> expr \<Rightarrow> val \<Rightarrow> 'w state \<Rightarrow> exn option \<times> 'w state"
  and assigns :: "'w library \<Rightarrow> expr list \<Rightarrow> val list \<Rightarrow> 'w state \<Rightarrow> exn option \<times> 'w state"
where
  "assign ext (Name x) v s = (None, bind x v s)"
| "assign ext (Tuple ts) v s =
     (case v of
        VTuple vs \<Rightarrow> if length vs = length ts then assigns ext ts vs s else (Some UnpackError, s)
      | _ \<Rightarrow> (Some UnpackError, s))"
| "assign ext (Subscript e i) v s =
     (case eval ext e s of
        (Inl x, s1) \<Rightarrow> (Some x, s1)
      | (Inr c, s1) \<Rightarrow>
          (case eval ext i s1 of
             (Inl x, s2) \<Rightarrow> (Some x, s2)
           | (Inr iv, s2) \<Rightarrow>
               (case call ext SetItem [c, iv, v] s2 of
                  (Inl x, s3) \<Rightarrow> (Some x, s3)
                | (Inr u, s3) \<Rightarrow> (None, s3))))"
| "assign ext (Attr e a) v s =
     (case eval ext e s of
        (Inl x, s1) \<Rightarrow> (Some x, s1)
      | (Inr c, s1) \<Rightarrow>
          (case call ext (SetAttr a) [c, v] s1 of
             (Inl x, s2) \<Rightarrow> (Some x, s2)
           | (Inr u, s2) \<Rightarrow> (None, s2)))"
| "assign ext (Const c) v s = (Some OutsideFragment, s)"
| "assign ext (Call f args) v s = (Some OutsideFragment, s)"
| "assign ext (Kw k e) v s = (Some OutsideFragment, s)"
| "assign ext (Slice lo hi) v s = (Some OutsideFragment, s)"
| "assign ext (Invert e) v s = (Some OutsideFragment, s)"
| "assign ext (BinOp b l r) v s = (Some OutsideFragment, s)"
| "assign ext (IfExp c a b) v s = (Some OutsideFragment, s)"
| "assign ext (Lambda ps e) v s = (Some OutsideFragment, s)"
| "assign ext (ListComp e x xs) v s = (Some OutsideFragment, s)"
| "assigns ext [] vs s = (None, s)"
| "assigns ext (t # ts) vs s =
     (case vs of
        [] \<Rightarrow> (Some UnpackError, s)
      | v # vs' \<Rightarrow>
          (case assign ext t v s of
             (Some x, s1) \<Rightarrow> (Some x, s1)
           | (None, s1) \<Rightarrow> assigns ext ts vs' s1))"

text \<open>
  Statements. The result is \<open>None\<close> when the statement completes and \<open>Some x\<close> when it
  raises \<open>x\<close>. A \<open>with\<close> block evaluates its context manager, enters it, binds the
  result, runs the body and leaves the context manager whether or not the body raised; the
  context managers of the notebooks are the file objects of \<open>fits.open\<close>, whose exit closes
  the file and does not swallow the exception of the body. The statement forms that no
  notebook uses end the run with \<open>OutsideFragment\<close>.
\<close>

fun exec :: "'w library \<Rightarrow> stmt \<Rightarrow> 'w state \<Rightarrow> exn option \<times> 'w state"
  and execs :: "'w library \<Rightarrow> stmt list \<Rightarrow> 'w state \<Rightarrow> exn option \<times> 'w state"
where
  "exec ext (Import m a) s =
     (case call ext (ImportOp m) [] s of
        (Inl x, s1) \<Rightarrow> (Some x, s1)
      | (Inr v, s1) \<Rightarrow> (None, bind a v s1))"
| "exec ext (ImportFrom m n) s =
     (case call ext (ImportOp m) [] s of
        (Inl x, s1) \<Rightarrow> (Some x, s1)
      | (Inr mv, s1) \<Rightarrow>
          (case call ext (GetAttr n) [mv] s1 of
             (Inl x, s2) \<Rightarrow> (Some x, s2)
           | (Inr v, s2) \<Rightarrow> (None, bind n v s2)))"
| "exec ext (Magic m) s =
     (case call ext (MagicOp m) [] s of
        (Inl x, s1) \<Rightarrow> (Some x, s1)
      | (Inr u, s1) \<Rightarrow> (None, s1))"
| "exec ext (Assign t e) s =
     (case eval ext e s of
        (Inl x, s1) \<Rightarrow> (Some x, s1)
      | (Inr v, s1) \<Rightarrow> assign ext t v s1)"
| "exec ext (Expr e) s =
     (case eval ext e s of
        (Inl x, s1) \<Rightarrow> (Some x, s1)
      | (Inr v, s1) \<Rightarrow> (None, s1))"
| "exec ext (With e x body) s =
     (case eval ext e s of
        (Inl y, s1) \<Rightarrow> (Some y, s1)
      | (Inr cm, s1) \<Rightarrow>
          (case call ext CtxEnter [cm] s1 of
             (Inl y, s2) \<Rightarrow> (Some y, s2)
           | (Inr v, s2) \<Rightarrow>
               (case execs ext body (bind x v s2) of
                  (r, s3) \<Rightarrow>
                    (case call ext CtxExit [cm] s3 of
                       (Inl y, s4) \<Rightarrow> (Some y, s4)
                     | (Inr u, s4) \<Rightarrow> (r, s4)))))"
| "exec ext (If c a b) s = (Some OutsideFragment, s)"
| "exec ext (While c b) s = (Some OutsideFragment, s)"
| "exec ext (For t e b) s = (Some OutsideFragment, s)"
| "exec ext (Try b h) s = (Some OutsideFragment, s)"
| "exec ext (FunctionDef f ps b) s = (Some OutsideFragment, s)"
| "exec ext (ClassDef c b) s = (Some OutsideFragment, s)"
| "execs ext [] s = (None, s)"
| "execs ext (c # cs) s =
     (case exec ext c s of
        (Some x, s1) \<Rightarrow> (Some x, s1)
      | (None, s1) \<Rightarrow> execs ext cs s1)"

text \<open>
  A run of a notebook executes its cells from top to bottom, starting with the built-in
  functions the notebooks refer to and an empty record, and stops at the first exception.
\<close>

definition builtins :: "string list" where
  "builtins = [''print'', ''repr'', ''len'']"

definition initial :: "'w \<Rightarrow> 'w state" where
  "initial w = \<lparr>env = map_of (map (\<lambda>b. (b, VBuiltin b)) builtins), world = w, trace = []\<rparr>"

definition run :: "'w library \<Rightarrow> notebook \<Rightarrow> 'w \<Rightarrow> exn option \<times> 'w state" where
  "run ext nb w = execs ext (concat nb) (initial w)"

section \<open>Static analyses\<close>

subsection \<open>The library operations of a program\<close>

text \<open>
  The operations a piece of code issues, in the order of evaluation, read off the syntax:
  one for each attribute access, call, subscript, store, inversion, import, magic, and entry
  to and exit from a \<open>with\<close> block.
\<close>

fun ops_expr :: "expr \<Rightarrow> op list" and ops_exprs :: "expr list \<Rightarrow> op list" where
  "ops_expr (Name x) = []"
| "ops_expr (Const c) = []"
| "ops_expr (Attr e a) = ops_expr e @ [GetAttr a]"
| "ops_expr (Call f args) = ops_expr f @ ops_exprs args @ [CallOp (callee_name f)]"
| "ops_expr (Kw k e) = ops_expr e"
| "ops_expr (Subscript e i) = ops_expr e @ ops_expr i @ [GetItem]"
| "ops_expr (Slice lo hi) = ops_expr lo @ ops_expr hi"
| "ops_expr (Tuple es) = ops_exprs es"
| "ops_expr (Invert e) = ops_expr e @ [InvertOp]"
| "ops_expr (BinOp b l r) = []"
| "ops_expr (IfExp c a b) = []"
| "ops_expr (Lambda ps e) = []"
| "ops_expr (ListComp e x xs) = []"
| "ops_exprs [] = []"
| "ops_exprs (e # es) = ops_expr e @ ops_exprs es"

fun ops_target :: "expr \<Rightarrow> op list" and ops_targets :: "expr list \<Rightarrow> op list" where
  "ops_target (Name x) = []"
| "ops_target (Tuple ts) = ops_targets ts"
| "ops_target (Subscript e i) = ops_expr e @ ops_expr i @ [SetItem]"
| "ops_target (Attr e a) = ops_expr e @ [SetAttr a]"
| "ops_target (Const c) = []"
| "ops_target (Call f args) = []"
| "ops_target (Kw k e) = []"
| "ops_target (Slice lo hi) = []"
| "ops_target (Invert e) = []"
| "ops_target (BinOp b l r) = []"
| "ops_target (IfExp c a b) = []"
| "ops_target (Lambda ps e) = []"
| "ops_target (ListComp e x xs) = []"
| "ops_targets [] = []"
| "ops_targets (t # ts) = ops_target t @ ops_targets ts"

fun ops_stmt :: "stmt \<Rightarrow> op list" and ops_stmts :: "stmt list \<Rightarrow> op list" where
  "ops_stmt (Import m a) = [ImportOp m]"
| "ops_stmt (ImportFrom m n) = [ImportOp m, GetAttr n]"
| "ops_stmt (Magic m) = [MagicOp m]"
| "ops_stmt (Assign t e) = ops_expr e @ ops_target t"
| "ops_stmt (Expr e) = ops_expr e"
| "ops_stmt (With e x body) = ops_expr e @ [CtxEnter] @ ops_stmts body @ [CtxExit]"
| "ops_stmt (If c a b) = []"
| "ops_stmt (While c b) = []"
| "ops_stmt (For t e b) = []"
| "ops_stmt (Try b h) = []"
| "ops_stmt (FunctionDef f ps b) = []"
| "ops_stmt (ClassDef c b) = []"
| "ops_stmts [] = []"
| "ops_stmts (c # cs) = ops_stmt c @ ops_stmts cs"

definition ops_of :: "notebook \<Rightarrow> op list" where
  "ops_of nb = ops_stmts (concat nb)"

subsection \<open>Scope\<close>

text \<open>
  A statement is in scope when every name it reads is bound by then and it is written in the
  forms that have semantics. \<open>stmts_ok D cs\<close> checks the statements \<open>cs\<close> in order,
  starting from the bound names \<open>D\<close>, and returns the names bound after them. The one tuple
  assignment of the notebooks, \<open>fig, axes = plt.subplots(...)\<close>, unpacks the pair that
  \<open>subplots\<close> returns.
\<close>

fun expr_ok :: "string list \<Rightarrow> expr \<Rightarrow> bool" where
  "expr_ok D (Name x) = (x \<in> set D)"
| "expr_ok D (Const c) = True"
| "expr_ok D (Attr e a) = expr_ok D e"
| "expr_ok D (Call f args) = (expr_ok D f \<and> list_all (expr_ok D) args)"
| "expr_ok D (Kw k e) = expr_ok D e"
| "expr_ok D (Subscript e i) = (expr_ok D e \<and> expr_ok D i)"
| "expr_ok D (Slice lo hi) = (expr_ok D lo \<and> expr_ok D hi)"
| "expr_ok D (Tuple es) = list_all (expr_ok D) es"
| "expr_ok D (Invert e) = expr_ok D e"
| "expr_ok D (BinOp b l r) = False"
| "expr_ok D (IfExp c a b) = False"
| "expr_ok D (Lambda ps e) = False"
| "expr_ok D (ListComp e x xs) = False"

fun is_name :: "expr \<Rightarrow> bool" where
  "is_name (Name x) = True"
| "is_name e = False"

fun target_ok :: "string list \<Rightarrow> expr \<Rightarrow> expr \<Rightarrow> bool" where
  "target_ok D (Name x) e = True"
| "target_ok D (Tuple ts) e =
     (list_all is_name ts \<and> length ts = 2 \<and>
      (case e of Call f args \<Rightarrow> callee_name f = ''subplots'' | _ \<Rightarrow> False))"
| "target_ok D (Subscript c i) e = (expr_ok D c \<and> expr_ok D i)"
| "target_ok D (Attr c a) e = expr_ok D c"
| "target_ok D t e = False"

fun target_names :: "expr \<Rightarrow> string list" where
  "target_names (Name x) = [x]"
| "target_names (Tuple ts) = concat (map target_names ts)"
| "target_names t = []"

fun stmt_ok :: "string list \<Rightarrow> stmt \<Rightarrow> string list option"
  and stmts_ok :: "string list \<Rightarrow> stmt list \<Rightarrow> string list option"
where
  "stmt_ok D (Import m a) = Some (a # D)"
| "stmt_ok D (ImportFrom m n) = Some (n # D)"
| "stmt_ok D (Magic m) = Some D"
| "stmt_ok D (Assign t e) =
     (if expr_ok D e \<and> target_ok D t e then Some (target_names t @ D) else None)"
| "stmt_ok D (Expr e) = (if expr_ok D e then Some D else None)"
| "stmt_ok D (With e x body) = (if expr_ok D e then stmts_ok (x # D) body else None)"
| "stmt_ok D (If c a b) = None"
| "stmt_ok D (While c b) = None"
| "stmt_ok D (For t e b) = None"
| "stmt_ok D (Try b h) = None"
| "stmt_ok D (FunctionDef f ps b) = None"
| "stmt_ok D (ClassDef c b) = None"
| "stmts_ok D [] = Some D"
| "stmts_ok D (c # cs) = (case stmt_ok D c of None \<Rightarrow> None | Some D' \<Rightarrow> stmts_ok D' cs)"

definition well_scoped :: "notebook \<Rightarrow> bool" where
  "well_scoped nb = (stmts_ok builtins (concat nb) \<noteq> None)"

text \<open>
  A library on which every operation succeeds, and on which \<open>subplots\<close> returns the pair of
  a figure and its axes.
\<close>

definition succeeds :: "'w library \<Rightarrow> bool" where
  "succeeds ext \<longleftrightarrow>
     (\<forall>p args w. \<exists>v w'. ext p args w = (Inr v, w') \<and>
        (p = CallOp ''subplots'' \<longrightarrow> (\<exists>a b. v = VTuple [a, b])))"

subsection \<open>Failures in the record of a run\<close>

fun failed :: "event \<Rightarrow> bool" where
  "failed (p, args, Inl x) = True"
| "failed (p, args, Inr v) = False"

fun is_exit :: "event \<Rightarrow> bool" where
  "is_exit (p, args, r) = (p = CtxExit)"

text \<open>After the first failed operation nothing is issued but the exits of open \<open>with\<close> blocks.\<close>

fun halts_after_failure :: "event list \<Rightarrow> bool" where
  "halts_after_failure [] = True"
| "halts_after_failure (ev # evs) =
     (if failed ev then list_all is_exit evs else halts_after_failure evs)"

text \<open>The exception of the last failed operation of a record.\<close>

fun last_failure :: "event list \<Rightarrow> exn option" where
  "last_failure [] = None"
| "last_failure ((p, args, r) # evs) =
     (case last_failure evs of
        Some x \<Rightarrow> Some x
      | None \<Rightarrow> (case r of Inl x \<Rightarrow> Some x | Inr v \<Rightarrow> None))"

text \<open>
  How a piece of code with the operations \<open>ops\<close> extends the record when it ends with
  \<open>r\<close>: by events \<open>new\<close> that stop after the first failure, whose last failure, if any, is
  the exception raised, whose operations are among \<open>ops\<close> and no more than \<open>ops\<close>, and are
  exactly \<open>ops\<close> when the code completes.
\<close>

definition err :: "exn + 'a \<Rightarrow> exn option" where
  "err r = (case r of Inl x \<Rightarrow> Some x | Inr v \<Rightarrow> None)"

definition good :: "op list \<Rightarrow> exn option \<Rightarrow> event list \<Rightarrow> bool" where
  "good ops r new \<longleftrightarrow>
     halts_after_failure new \<and>
     (last_failure new = None \<or> last_failure new = r) \<and>
     set (map fst new) \<subseteq> set ops \<and>
     length new \<le> length ops \<and>
     (r = None \<longrightarrow> map fst new = ops)"

definition step :: "op list \<Rightarrow> exn option \<Rightarrow> 'w state \<Rightarrow> 'w state \<Rightarrow> bool" where
  "step ops r s s' \<longleftrightarrow> (\<exists>new. trace s' = trace s @ new \<and> good ops r new)"

subsection \<open>Two libraries to run the notebooks against\<close>

text \<open>
  \<open>obliging\<close> answers every operation with an object, and \<open>subplots\<close> with a pair of
  objects. \<open>offline\<close> does the same except that the searches and queries of the archive raise
  a connection error.
\<close>

definition result_of :: "op \<Rightarrow> val" where
  "result_of p = (if p = CallOp ''subplots'' then VTuple [VObj 0, VObj 0] else VObj 0)"

definition obliging :: "unit library" where
  "obliging p args w = (Inr (result_of p), w)"

definition remote_queries :: "string list" where
  "remote_queries = [''query_criteria'', ''get_product_list'', ''search_lightcurve'',
     ''search_targetpixelfile'']"

definition offline :: "unit library" where
  "offline p args w =
     (if p \<in> CallOp ` set remote_queries then (Inl (LibraryError ''ConnectionError''), w)
      else (Inr (result_of p), w))"

section \<open>What the notebooks are made of\<close>

subsection \<open>Straight-line code\<close>

text \<open>
  An expression is plain when it contains no binary operator or comparison, conditional
  expression, lambda or comprehension (it may contain the unary operator \<open>~\<close>, which the
  interpreter hands to the library); a statement is straight-line when it is an import, a magic, an
  assignment, an expression statement or a \<open>with\<close> block of straight-line statements, all
  over plain expressions.
\<close>

fun plain :: "expr \<Rightarrow> bool" where
  "plain (Name x) = True"
| "plain (Const c) = True"
| "plain (Attr e a) = plain e"
| "plain (Call f args) = (plain f \<and> list_all plain args)"
| "plain (Kw k e) = plain e"
| "plain (Subscript e i) = (plain e \<and> plain i)"
| "plain (Slice lo hi) = (plain lo \<and> plain hi)"
| "plain (Tuple es) = list_all plain es"
| "plain (Invert e) = plain e"
| "plain (BinOp b l r) = False"
| "plain (IfExp c a b) = False"
| "plain (Lambda ps e) = False"
| "plain (ListComp e x xs) = False"

fun straight_line :: "stmt \<Rightarrow> bool" where
  "straight_line (Import m a) = True"
| "straight_line (ImportFrom m n) = True"
| "straight_line (Magic m) = True"
| "straight_line (Assign t e) = (plain t \<and> plain e)"
| "straight_line (Expr e) = plain e"
| "straight_line (With e x body) = (plain e \<and> list_all straight_line body)"
| "straight_line (If c a b) = False"
| "straight_line (While c b) = False"
| "straight_line (For t e b) = False"
| "straight_line (Try b h) = False"
| "straight_line (FunctionDef f ps b) = False"
| "straight_line (ClassDef c b) = False"

definition linear_script :: "notebook \<Rightarrow> bool" where
  "linear_script nb = list_all straight_line (concat nb)"

text \<open>The operands of the operator \<open>~\<close> in a notebook.\<close>

fun inverted :: "expr \<Rightarrow> expr list" and inverted_list :: "expr list \<Rightarrow> expr list" where
  "inverted (Name x) = []"
| "inverted (Const c) = []"
| "inverted (Attr e a) = inverted e"
| "inverted (Call f args) = inverted f @ inverted_list args"
| "inverted (Kw k e) = inverted e"
| "inverted (Subscript e i) = inverted e @ inverted i"
| "inverted (Slice lo hi) = inverted lo @ inverted hi"
| "inverted (Tuple es) = inverted_list es"
| "inverted (Invert e) = e # inverted e"
| "inverted (BinOp b l r) = inverted l @ inverted r"
| "inverted (IfExp c a b) = inverted c @ inverted a @ inverted b"
| "inverted (Lambda ps e) = inverted e"
| "inverted (ListComp e x xs) = inverted e @ inverted xs"
| "inverted_list [] = []"
| "inverted_list (e # es) = inverted e @ inverted_list es"

fun inverted_stmt :: "stmt \<Rightarrow> expr list" and inverted_stmts :: "stmt list \<Rightarrow> expr list" where
  "inverted_stmt (Import m a) = []"
| "inverted_stmt (ImportFrom m n) = []"
| "inverted_stmt (Magic m) = []"
| "inverted_stmt (Assign t e) = inverted e @ inverted t"
| "inverted_stmt (Expr e) = inverted e"
| "inverted_stmt (With e x body) = inverted e @ inverted_stmts body"
| "inverted_stmt (If c a b) = inverted c @ inverted_stmts a @ inverted_stmts b"
| "inverted_stmt (While c b) = inverted c @ inverted_stmts b"
| "inverted_stmt (For t e b) = inverted e @ inverted_stmts b"
| "inverted_stmt (Try b h) = inverted_stmts b @ inverted_stmts h"
| "inverted_stmt (FunctionDef f ps b) = inverted_stmts b"
| "inverted_stmt (ClassDef c b) = inverted_stmts b"
| "inverted_stmts [] = []"
| "inverted_stmts (c # cs) = inverted_stmt c @ inverted_stmts cs"


text \<open>
  What is called is external: a method or function reached through an attribute of a module
  or object, a built-in function, or a name imported from a library.
\<close>

fun imported :: "stmt \<Rightarrow> string list" where
  "imported (Import m a) = [a]"
| "imported (ImportFrom m n) = [n]"
| "imported c = []"

fun calls_external :: "string list \<Rightarrow> expr \<Rightarrow> bool" where
  "calls_external E (Name x) = True"
| "calls_external E (Const c) = True"
| "calls_external E (Attr e a) = calls_external E e"
| "calls_external E (Call f args) =
     ((case f of Attr e a \<Rightarrow> calls_external E e | Name x \<Rightarrow> x \<in> set E | _ \<Rightarrow> False) \<and>
      list_all (calls_external E) args)"
| "calls_external E (Kw k e) = calls_external E e"
| "calls_external E (Subscript e i) = (calls_external E e \<and> calls_external E i)"
| "calls_external E (Slice lo hi) = (calls_external E lo \<and> calls_external E hi)"
| "calls_external E (Tuple es) = list_all (calls_external E) es"
| "calls_external E (Invert e) = calls_external E e"
| "calls_external E (BinOp b l r) = False"
| "calls_external E (IfExp c a b) = False"
| "calls_external E (Lambda ps e) = False"
| "calls_external E (ListComp e x xs) = False"

fun stmt_calls_external :: "string list \<Rightarrow> stmt \<Rightarrow> bool" where
  "stmt_calls_external E (Assign t e) = (calls_external E t \<and> calls_external E e)"
| "stmt_calls_external E (Expr e) = calls_external E e"
| "stmt_calls_external E (With e x body) =
     (calls_external E e \<and> list_all (stmt_calls_external E) body)"
| "stmt_calls_external E (Import m a) = True"
| "stmt_calls_external E (ImportFrom m n) = True"
| "stmt_calls_external E (Magic m) = True"
| "stmt_calls_external E (If c a b) = False"
| "stmt_calls_external E (While c b) = False"
| "stmt_calls_external E (For t e b) = False"
| "stmt_calls_external E (Try b h) = False"
| "stmt_calls_external E (FunctionDef f ps b) = False"
| "stmt_calls_external E (ClassDef c b) = False"

definition only_external_calls :: "notebook \<Rightarrow> bool" where
  "only_external_calls nb =
     list_all (stmt_calls_external (builtins @ concat (map imported (concat nb)))) (concat nb)"

subsection \<open>Handlers\<close>

text \<open>
  Code that could catch an exception or try again: a \<open>try\<close> statement or a loop, at any
  depth.
\<close>

fun handler_free :: "stmt \<Rightarrow> bool" where
  "handler_free (Try b h) = False"
| "handler_free (While c b) = False"
| "handler_free (For t e b) = False"
| "handler_free (With e x body) = list_all handler_free body"
| "handler_free (If c a b) = (list_all handler_free a \<and> list_all handler_free b)"
| "handler_free (FunctionDef f ps b) = list_all handler_free b"
| "handler_free (ClassDef c b) = list_all handler_free b"
| "handler_free (Import m a) = True"
| "handler_free (ImportFrom m n) = True"
| "handler_free (Magic m) = True"
| "handler_free (Assign t e) = True"
| "handler_free (Expr e) = True"

subsection \<open>Queries, downloads and plots\<close>

text \<open>
  The calls that query the archive are listed in \<open>remote_queries\<close> above; those that
  download files and those that draw data are listed here. \<open>count_calls names ops\<close> counts
  the calls of the functions \<open>names\<close> among the operations \<open>ops\<close>.
\<close>

definition downloads :: "string list" where
  "downloads = [''download_products'', ''download'', ''download_all'']"

definition plot_calls :: "string list" where
  "plot_calls = [''plot'', ''scatter'', ''imshow'']"

definition count_calls :: "string list \<Rightarrow> op list \<Rightarrow> nat" where
  "count_calls names ops = length (filter (\<lambda>p. p \<in> CallOp ` set names) ops)"

definition issued :: "'w state \<Rightarrow> op list" where
  "issued s = map fst (trace s)"

subsection \<open>Who writes and who prints\<close>

text \<open>
  The functions repository code calls by name, not through an object: these are the only
  calls in which it could itself reach Python's file and output functions.
\<close>

fun direct_callees :: "expr \<Rightarrow> string list" and direct_callees_list :: "expr list \<Rightarrow> string list"
where
  "direct_callees (Name x) = []"
| "direct_callees (Const c) = []"
| "direct_callees (Attr e a) = direct_callees e"
| "direct_callees (Call f args) =
     (case f of Name g \<Rightarrow> [g] | _ \<Rightarrow> direct_callees f) @ direct_callees_list args"
| "direct_callees (Kw k e) = direct_callees e"
| "direct_callees (Subscript e i) = direct_callees e @ direct_callees i"
| "direct_callees (Slice lo hi) = direct_callees lo @ direct_callees hi"
| "direct_callees (Tuple es) = direct_callees_list es"
| "direct_callees (Invert e) = direct_callees e"
| "direct_callees (BinOp b l r) = direct_callees l @ direct_callees r"
| "direct_callees (IfExp c a b) = direct_callees c @ direct_callees a @ direct_callees b"
| "direct_callees (Lambda ps e) = direct_callees e"
| "direct_callees (ListComp e x xs) = direct_callees e @ direct_callees xs"
| "direct_callees_list [] = []"
| "direct_callees_list (e # es) = direct_callees e @ direct_callees_list es"

fun direct_callees_stmt :: "stmt \<Rightarrow> string list"
  and direct_callees_stmts :: "stmt list \<Rightarrow> string list"
where
  "direct_callees_stmt (Import m a) = []"
| "direct_callees_stmt (ImportFrom m n) = []"
| "direct_callees_stmt (Magic m) = []"
| "direct_callees_stmt (Assign t e) = direct_callees e @ direct_callees t"
| "direct_callees_stmt (Expr e) = direct_callees e"
| "direct_callees_stmt (With e x body) = direct_callees e @ direct_callees_stmts body"
| "direct_callees_stmt (If c a b) =
     direct_callees c @ direct_callees_stmts a @ direct_callees_stmts b"
| "direct_callees_stmt (While c b) = direct_callees c @ direct_callees_stmts b"
| "direct_callees_stmt (For t e b) = direct_callees e @ direct_callees_stmts b"
| "direct_callees_stmt (Try b h) = direct_callees_stmts b @ direct_callees_stmts h"
| "direct_callees_stmt (FunctionDef f ps b) = direct_callees_stmts b"
| "direct_callees_stmt (ClassDef c b) = direct_callees_stmts b"
| "direct_callees_stmts [] = []"
| "direct_callees_stmts (c # cs) = direct_callees_stmt c @ direct_callees_stmts cs"








subsection \<open>Randomness, clock and environment\<close>

text \<open>
  The operations through which Python code reads a random source, the clock or the
  environment of the process: importing one of the modules that provide them, or reaching
  one of their functions.
\<close>

definition ambient_modules :: "string list" where
  "ambient_modules = [''random'', ''numpy.random'', ''secrets'', ''uuid'', ''time'',
     ''datetime'', ''os'', ''sys'', ''platform'', ''getpass'', ''socket'']"

definition ambient_names :: "string list" where
  "ambient_names = [''random'', ''seed'', ''rand'', ''randn'', ''randint'', ''normal'',
     ''uniform'', ''choice'', ''shuffle'', ''permutation'', ''default_rng'', ''urandom'',
     ''uuid4'', ''now'', ''today'', ''utcnow'', ''time'', ''perf_counter'', ''monotonic'',
     ''environ'', ''getenv'', ''getcwd'', ''getpid'', ''gethostname'', ''argv'']"

fun ambient :: "op \<Rightarrow> bool" where
  "ambient (ImportOp m) = (m \<in> set ambient_modules)"
| "ambient (GetAttr a) = (a \<in> set ambient_names)"
| "ambient (CallOp f) = (f \<in> set ambient_names)"
| "ambient p = False"

text \<open>Two libraries agree on the operations \<open>ops\<close>, whatever the operands and the world.\<close>

definition agree :: "op list \<Rightarrow> 'w library \<Rightarrow> 'w library \<Rightarrow> bool" where
  "agree ops ext1 ext2 \<longleftrightarrow> (\<forall>p \<in> set ops. \<forall>args w. ext1 p args w = ext2 p args w)"

text \<open>
  \<open>moody\<close> is \<open>obliging\<close> except on the ambient operations, which it answers with another
  object.
\<close>

definition moody :: "unit library" where
  "moody p args w = (if ambient p then (Inr (VObj 1), w) else obliging p args w)"

text \<open>
  Two libraries that answer alike on every operation that is not ambient: the same archive,
  the same files and the same numerical routines, under whatever random source, clock and
  process environment.
\<close>

definition same_but_ambient :: "'w library \<Rightarrow> 'w library \<Rightarrow> bool" where
  "same_but_ambient ext1 ext2 \<longleftrightarrow> (\<forall>p args w. ambient p \<or> ext1 p args w = ext2 p args w)"

subsection \<open>Aperture masks\<close>

text \<open>
  Where an aperture mask comes from. \<open>Routine\<close>: from lightkurve, as the result of
  \<open>create_threshold_mask\<close>, as the attribute \<open>pipeline_mask\<close>, or named by one of the
  keywords \<open>'pipeline'\<close>, \<open>'threshold'\<close>, \<open>'all'\<close>. \<open>Handmade\<close>: an array the notebook
  creates with \<open>zeros(..., dtype='bool')\<close> of the numpy module. \<open>Extension i\<close>: the data of
  the \<open>i\<close>-th header-data unit of a FITS file opened with \<open>fits.open\<close> of astropy. \<open>Numpy\<close>
  and \<open>Fits\<close> are the modules, \<open>HduList\<close> is a FITS file opened, and \<open>Unknown\<close> is anything
  else.
\<close>

datatype origin = Routine | Handmade | Extension int | Numpy | Fits | HduList | Unknown

definition mask_keywords :: "string list" where
  "mask_keywords = [''pipeline'', ''threshold'', ''all'']"

type_synonym origins = "(string \<times> origin) list"

fun mask_origin :: "origins \<Rightarrow> expr \<Rightarrow> origin" where
  "mask_origin M (Name x) = (case map_of M x of Some g \<Rightarrow> g | None \<Rightarrow> Unknown)"
| "mask_origin M (Const c) =
     (case c of CStr k \<Rightarrow> if k \<in> set mask_keywords then Routine else Unknown | _ \<Rightarrow> Unknown)"
| "mask_origin M (Attr (Subscript h (Const (CInt i))) a) =
     (if a = ''pipeline_mask'' then Routine
      else if a = ''data'' \<and> mask_origin M h = HduList then Extension i
      else Unknown)"
| "mask_origin M (Attr e a) = (if a = ''pipeline_mask'' then Routine else Unknown)"
| "mask_origin M (Call f args) =
     (case f of
        Attr e a \<Rightarrow>
          if a = ''create_threshold_mask'' then Routine
          else if a = ''zeros'' \<and> mask_origin M e = Numpy \<and> Kw ''dtype'' (SConst ''bool'') \<in> set args
          then Handmade else Unknown
      | _ \<Rightarrow> Unknown)"
| "mask_origin M e = Unknown"

text \<open>The expressions passed as \<open>aperture_mask=\<close> anywhere in an expression.\<close>

fun mask_uses :: "expr \<Rightarrow> expr list" and mask_uses_list :: "expr list \<Rightarrow> expr list" where
  "mask_uses (Name x) = []"
| "mask_uses (Const c) = []"
| "mask_uses (Attr e a) = mask_uses e"
| "mask_uses (Call f args) = mask_uses f @ mask_uses_list args"
| "mask_uses (Kw k e) = (if k = ''aperture_mask'' then [e] else []) @ mask_uses e"
| "mask_uses (Subscript e i) = mask_uses e @ mask_uses i"
| "mask_uses (Slice lo hi) = mask_uses lo @ mask_uses hi"
| "mask_uses (Tuple es) = mask_uses_list es"
| "mask_uses (Invert e) = mask_uses e"
| "mask_uses (BinOp b l r) = mask_uses l @ mask_uses r"
| "mask_uses (IfExp c a b) = mask_uses c @ mask_uses a @ mask_uses b"
| "mask_uses (Lambda ps e) = mask_uses e"
| "mask_uses (ListComp e x xs) = mask_uses e @ mask_uses xs"
| "mask_uses_list [] = []"
| "mask_uses_list (e # es) = mask_uses e @ mask_uses_list es"

text \<open>What a \<open>with\<close> block binds: the file that \<open>fits.open\<close> opens, or something else.\<close>

fun context_origin :: "origins \<Rightarrow> expr \<Rightarrow> origin" where
  "context_origin M (Call (Attr c a) args) =
     (if a = ''open'' \<and> mask_origin M c = Fits then HduList else Unknown)"
| "context_origin M e = Unknown"

text \<open>
  The origins of the variables after a statement: an assignment to a name records the
  origin of the value, an import of numpy or of astropy's \<open>fits\<close> records the module, and
  a store into an array leaves the array what it was (a boolean array stays boolean
  whatever is stored).
\<close>

fun track :: "origins \<Rightarrow> stmt \<Rightarrow> origins" and tracks :: "origins \<Rightarrow> stmt list \<Rightarrow> origins" where
  "track M (Import m a) = (a, if m = ''numpy'' then Numpy else Unknown) # M"
| "track M (ImportFrom m n) =
     (n, if m = ''astropy.io'' \<and> n = ''fits'' then Fits else Unknown) # M"
| "track M (Magic m) = M"
| "track M (Assign t e) =
     (case t of
        Name x \<Rightarrow> (x, mask_origin M e) # M
      | _ \<Rightarrow> map (\<lambda>x. (x, Unknown)) (target_names t) @ M)"
| "track M (Expr e) = M"
| "track M (With e x body) = tracks ((x, context_origin M e) # M) body"
| "track M (If c a b) = []"
| "track M (While c b) = []"
| "track M (For t e b) = []"
| "track M (Try b h) = []"
| "track M (FunctionDef f ps b) = []"
| "track M (ClassDef c b) = []"
| "tracks M [] = M"
| "tracks M (c # cs) = tracks (track M c) cs"

text \<open>
  The origin of every aperture mask a statement passes on, in order. A statement form
  outside the straight-line fragment counts as passing on an unknown mask.
\<close>

fun masks_stmt :: "origins \<Rightarrow> stmt \<Rightarrow> origin list"
  and masks_stmts :: "origins \<Rightarrow> stmt list \<Rightarrow> origin list"
where
  "masks_stmt M (Import m a) = []"
| "masks_stmt M (ImportFrom m n) = []"
| "masks_stmt M (Magic m) = []"
| "masks_stmt M (Assign t e) = map (mask_origin M) (mask_uses e @ mask_uses t)"
| "masks_stmt M (Expr e) = map (mask_origin M) (mask_uses e)"
| "masks_stmt M (With e x body) =
     map (mask_origin M) (mask_uses e) @ masks_stmts ((x, context_origin M e) # M) body"
| "masks_stmt M (If c a b) = [Unknown]"
| "masks_stmt M (While c b) = [Unknown]"
| "masks_stmt M (For t e b) = [Unknown]"
| "masks_stmt M (Try b h) = [Unknown]"
| "masks_stmt M (FunctionDef f ps b) = [Unknown]"
| "masks_stmt M (ClassDef c b) = [Unknown]"
| "masks_stmts M [] = []"
| "masks_stmts M (c # cs) = masks_stmt M c @ masks_stmts (track M c) cs"








text \<open>
  The stores of a statement into objects: the variable stored into (or the attribute
  assigned), its origin at that point, the subscript and the value stored.
\<close>

type_synonym store = "string \<times> origin \<times> expr \<times> expr"

fun stores_stmt :: "origins \<Rightarrow> stmt \<Rightarrow> store list"
  and stores_stmts :: "origins \<Rightarrow> stmt list \<Rightarrow> store list"
where
  "stores_stmt M (Assign t e) =
     (case t of
        Subscript c i \<Rightarrow> (case c of Name x \<Rightarrow> [(x, mask_origin M c, i, e)]
                                  | _ \<Rightarrow> [([], Unknown, i, e)])
      | Attr c a \<Rightarrow> [(a, Unknown, c, e)]
      | Tuple ts \<Rightarrow> (if list_all is_name ts then [] else [([], Unknown, t, e)])
      | _ \<Rightarrow> [])"
| "stores_stmt M (With e x body) = stores_stmts ((x, context_origin M e) # M) body"
| "stores_stmt M (Import m a) = []"
| "stores_stmt M (ImportFrom m n) = []"
| "stores_stmt M (Magic m) = []"
| "stores_stmt M (Expr e) = []"
| "stores_stmt M (If c a b) = [([], Unknown, c, c)]"
| "stores_stmt M (While c b) = [([], Unknown, c, c)]"
| "stores_stmt M (For t e b) = [([], Unknown, t, e)]"
| "stores_stmt M (Try b h) = [([], Unknown, Const CNone, Const CNone)]"
| "stores_stmt M (FunctionDef f ps b) = [([], Unknown, Const CNone, Const CNone)]"
| "stores_stmt M (ClassDef c b) = [([], Unknown, Const CNone, Const CNone)]"
| "stores_stmts M [] = []"
| "stores_stmts M (c # cs) = stores_stmt M c @ stores_stmts (track M c) cs"


subsection \<open>The masks built by hand\<close>











subsection \<open>Masking a light curve\<close>

text \<open>
  The statement of \<open>part_001\<close> that builds the masked light curve,
  \<open>masked_lc = lc[~planet_b_mask]\<close>, and the statements of the notebook before and after it.
\<close>

definition masking :: stmt where
  "masking = Assign (Name ''masked_lc'') (Subscript (Name ''lc'') (Invert (Name ''planet_b_mask'')))"

definition before_masking :: "stmt list" where
  "before_masking = takeWhile (\<lambda>c. c \<noteq> masking) (concat part_001)"

definition after_masking :: "stmt list" where
  "after_masking = tl (dropWhile (\<lambda>c. c \<noteq> masking) (concat part_001))"

text \<open>The names a statement binds.\<close>

fun assigned :: "stmt \<Rightarrow> string list" where
  "assigned (Import m a) = [a]"
| "assigned (ImportFrom m n) = [n]"
| "assigned (Assign t e) = target_names t"
| "assigned (With e x body) = x # concat (map assigned body)"
| "assigned c = []"

text \<open>
  Indexing with a boolean mask, as numpy and the light curves of lightkurve do it. A light
  curve is the sequence of its cadences and a mask is a sequence of booleans of the same
  length; \<open>~\<close> negates each boolean, and indexing with a mask returns a new sequence, of the
  elements at which the mask is true, and changes nothing.
\<close>

fun is_flag :: "val \<Rightarrow> bool" where
  "is_flag (VConst (CBool b)) = True"
| "is_flag v = False"

fun flip :: "val \<Rightarrow> val" where
  "flip (VConst (CBool b)) = VConst (CBool (\<not> b))"
| "flip v = v"

definition select :: "'a list \<Rightarrow> val list \<Rightarrow> 'a list" where
  "select xs m = map fst (filter (\<lambda>(x, f). f = VConst (CBool True)) (zip xs m))"

definition numpy_masks :: "'w library \<Rightarrow> bool" where
  "numpy_masks ext \<longleftrightarrow>
     (\<forall>m w. list_all is_flag m \<longrightarrow>
        ext InvertOp [VArray m] w = (Inr (VArray (map flip m)), w)) \<and>
     (\<forall>xs m w. list_all is_flag m \<and> length m = length xs \<longrightarrow>
        ext GetItem [VArray xs, VArray m] w = (Inr (VArray (select xs m)), w))"

text \<open>
  \<open>kepler69\<close> is an obliging library with such arrays: the light curve that
  \<open>remove_outliers\<close> returns has four cadences, and the transit mask marks the second.
\<close>

definition kepler69 :: "unit library" where
  "kepler69 p args w =
     (if p = InvertOp then
        (case args of
           [VArray m] \<Rightarrow> (Inr (VArray (map flip m)), w)
         | _ \<Rightarrow> (Inl (LibraryError ''TypeError''), w))
      else if p = GetItem then
        (case args of
           [VArray xs, VArray m] \<Rightarrow>
             if list_all is_flag m \<and> length m = length xs then (Inr (VArray (select xs m)), w)
             else (Inl (LibraryError ''IndexError''), w)
         | _ \<Rightarrow> (Inr (VObj 0), w))
      else if p = CallOp ''remove_outliers'' then
        (Inr (VArray [VObj 1, VObj 2, VObj 3, VObj 4]), w)
      else if p = CallOp ''get_transit_mask'' then
        (Inr (VArray [VConst (CBool False), VConst (CBool True), VConst (CBool False),
                      VConst (CBool False)]), w)
      else (Inr (result_of p), w))"

subsection \<open>Imports\<close>

text \<open>The modules a statement imports, and the libraries the notebooks draw on.\<close>

fun imported_modules :: "stmt \<Rightarrow> string list" where
  "imported_modules (Import m a) = [m]"
| "imported_modules (ImportFrom m n) = [m]"
| "imported_modules (With e x body) = concat (map imported_modules body)"
| "imported_modules c = []"

definition libraries :: "string list" where
  "libraries = [''numpy'', ''astropy.io'', ''astropy.table'', ''matplotlib.pyplot'',
     ''astroquery.mast'', ''lightkurve'']"

section \<open>Properties\<close>

subsection \<open>Unfolding the interpreter\<close>

lemma call_env: "call ext p args s = (r, s') \<Longrightarrow> env s' = env s"
  by (auto simp: call_def split: prod.splits)

lemma call_trace: "call ext p args s = (r, s') \<Longrightarrow> trace s' = trace s @ [(p, args, r)]"
  by (auto simp: call_def split: prod.splits)

lemma bind_trace [simp]: "trace (bind x v s) = trace s"
  by (simp add: bind_def)

lemma bind_world [simp]: "world (bind x v s) = world s"
  by (simp add: bind_def)

lemma bind_env [simp]: "env (bind x v s) = (env s)(x \<mapsto> v)"
  by (simp add: bind_def)

lemma eval_Name_iff:
  "eval ext (Name x) s = (r, s') \<longleftrightarrow>
     s' = s \<and> (case env s x of None \<Rightarrow> r = Inl (NameError x) | Some v \<Rightarrow> r = Inr v)"
  by (auto split: option.splits)

lemma eval_Attr_iff:
  "eval ext (Attr e a) s = (r, s') \<longleftrightarrow>
     (\<exists>x. eval ext e s = (Inl x, s') \<and> r = Inl x) \<or>
     (\<exists>v s1. eval ext e s = (Inr v, s1) \<and> call ext (GetAttr a) [v] s1 = (r, s'))"
  by (auto split: prod.splits sum.splits)

lemma eval_Call_iff:
  "eval ext (Call f args) s = (r, s') \<longleftrightarrow>
     (\<exists>x. eval ext f s = (Inl x, s') \<and> r = Inl x) \<or>
     (\<exists>fv s1. eval ext f s = (Inr fv, s1) \<and>
        ((\<exists>x. evals ext args s1 = (Inl x, s') \<and> r = Inl x) \<or>
         (\<exists>vs s2. evals ext args s1 = (Inr vs, s2) \<and>
            call ext (CallOp (callee_name f)) (fv # vs) s2 = (r, s'))))"
  by (auto split: prod.splits sum.splits)

lemma eval_Kw_iff:
  "eval ext (Kw k e) s = (r, s') \<longleftrightarrow>
     (\<exists>x. eval ext e s = (Inl x, s') \<and> r = Inl x) \<or>
     (\<exists>v. eval ext e s = (Inr v, s') \<and> r = Inr (VKw k v))"
  by (auto split: prod.splits sum.splits)

lemma eval_Subscript_iff:
  "eval ext (Subscript e i) s = (r, s') \<longleftrightarrow>
     (\<exists>x. eval ext e s = (Inl x, s') \<and> r = Inl x) \<or>
     (\<exists>v s1. eval ext e s = (Inr v, s1) \<and>
        ((\<exists>x. eval ext i s1 = (Inl x, s') \<and> r = Inl x) \<or>
         (\<exists>iv s2. eval ext i s1 = (Inr iv, s2) \<and> call ext GetItem [v, iv] s2 = (r, s'))))"
  by (auto split: prod.splits sum.splits)

lemma eval_Slice_iff:
  "eval ext (Slice lo hi) s = (r, s') \<longleftrightarrow>
     (\<exists>x. eval ext lo s = (Inl x, s') \<and> r = Inl x) \<or>
     (\<exists>l s1. eval ext lo s = (Inr l, s1) \<and>
        ((\<exists>x. eval ext hi s1 = (Inl x, s') \<and> r = Inl x) \<or>
         (\<exists>h. eval ext hi s1 = (Inr h, s') \<and> r = Inr (VSlice l h))))"
  by (auto split: prod.splits sum.splits)

lemma eval_Tuple_iff:
  "eval ext (Tuple es) s = (r, s') \<longleftrightarrow>
     (\<exists>x. evals ext es s = (Inl x, s') \<and> r = Inl x) \<or>
     (\<exists>vs. evals ext es s = (Inr vs, s') \<and> r = Inr (VTuple vs))"
  by (auto split: prod.splits sum.splits)

lemma eval_Invert_iff:
  "eval ext (Invert e) s = (r, s') \<longleftrightarrow>
     (\<exists>x. eval ext e s = (Inl x, s') \<and> r = Inl x) \<or>
     (\<exists>v s1. eval ext e s = (Inr v, s1) \<and> call ext InvertOp [v] s1 = (r, s'))"
  by (auto split: prod.splits sum.splits)

lemma evals_Cons_iff:
  "evals ext (e # es) s = (r, s') \<longleftrightarrow>
     (\<exists>x. eval ext e s = (Inl x, s') \<and> r = Inl x) \<or>
     (\<exists>v s1. eval ext e s = (Inr v, s1) \<and>
        ((\<exists>x. evals ext es s1 = (Inl x, s') \<and> r = Inl x) \<or>
         (\<exists>vs. evals ext es s1 = (Inr vs, s') \<and> r = Inr (v # vs))))"
  by (auto split: prod.splits sum.splits)

lemmas eval_iffs = eval_Name_iff eval_Attr_iff eval_Call_iff eval_Kw_iff eval_Subscript_iff
  eval_Slice_iff eval_Tuple_iff eval_Invert_iff evals_Cons_iff

lemma eval_env:
  "eval ext e s = (r, s') \<Longrightarrow> env s' = env s"
  "evals ext es s = (rs, s') \<Longrightarrow> env s' = env s"
proof (induction e and es arbitrary: s r s' and s rs s' rule: ops_expr_ops_exprs.induct)
qed (auto simp: eval_iffs simp del: eval.simps(1,3-9) evals.simps(2) dest: call_env split: option.splits)


subsection \<open>The record of a run\<close>

lemma err_simps [simp]: "err (Inl x) = Some x" "err (Inr v) = None"
  by (simp_all add: err_def)

lemma last_failure_None_iff: "last_failure evs = None \<longleftrightarrow> list_all (\<lambda>ev. \<not> failed ev) evs"
proof (induction evs)
  case Nil
  show ?case by simp
next
  case (Cons ev evs)
  obtain p args r where ev: "ev = (p, args, r)" by (cases ev)
  show ?case using Cons by (cases r) (auto simp: ev split: option.splits)
qed

lemma last_failure_append:
  "last_failure (xs @ ys) = (case last_failure ys of Some x \<Rightarrow> Some x | None \<Rightarrow> last_failure xs)"
proof (induction xs)
  case Nil
  show ?case by (simp split: option.splits)
next
  case (Cons ev xs)
  obtain p args r where ev: "ev = (p, args, r)" by (cases ev)
  show ?case using Cons by (cases r) (auto simp: ev split: option.splits)
qed

lemma halts_append_quiet:
  "last_failure xs = None \<Longrightarrow> halts_after_failure (xs @ ys) = halts_after_failure ys"
  by (induction xs) (auto simp: last_failure_None_iff)

lemma halts_append_exit:
  "halts_after_failure xs \<Longrightarrow> is_exit ev \<Longrightarrow> halts_after_failure (xs @ [ev])"
  by (induction xs) auto

lemma good_quiet: "good ops None new \<Longrightarrow> last_failure new = None"
  by (auto simp: good_def)

lemma step_refl: "step [] r s s"
  by (simp add: step_def good_def)

lemma step_raise: "step ops (Some x) s s"
  by (simp add: step_def good_def)

lemma step_bind [simp]:
  "step ops r (bind x v s) s' = step ops r s s'"
  "step ops r s (bind x v s') = step ops r s s'"
  by (simp_all add: step_def)

lemma step_call: "call ext p args s = (r, s') \<Longrightarrow> step [p] (err r) s s'"
  by (cases r) (auto simp: step_def good_def dest!: call_trace)

lemma step_seq:
  assumes "step ops1 None s s1" and "step ops2 r s1 s2"
  shows "step (ops1 @ ops2) r s s2"
proof -
  from assms(1) obtain n1 where n1: "trace s1 = trace s @ n1" "good ops1 None n1"
    by (auto simp: step_def)
  from assms(2) obtain n2 where n2: "trace s2 = trace s1 @ n2" "good ops2 r n2"
    by (auto simp: step_def)
  have q: "last_failure n1 = None" using n1(2) by (rule good_quiet)
  have "good (ops1 @ ops2) r (n1 @ n2)"
    using n1(2) n2(2) q
    by (auto simp: good_def halts_append_quiet last_failure_append split: option.splits)
  then show ?thesis using n1(1) n2(1) by (auto simp: step_def)
qed

lemma step_raise_left: "step ops1 (Some x) s s1 \<Longrightarrow> step (ops1 @ ops2) (Some x) s s1"
  by (fastforce simp: step_def good_def)

lemma step_exit:
  assumes "step ops r s s3" and "call ext CtxExit [cm] s3 = (r', s4)"
  shows "step (ops @ [CtxExit]) (case r' of Inl y \<Rightarrow> Some y | Inr u \<Rightarrow> r) s s4"
proof -
  from assms(1) obtain n where n: "trace s3 = trace s @ n" "good ops r n"
    by (auto simp: step_def)
  have t: "trace s4 = trace s @ n @ [(CtxExit, [cm], r')]"
    using call_trace[OF assms(2)] n(1) by simp
  have "good (ops @ [CtxExit]) (case r' of Inl y \<Rightarrow> Some y | Inr u \<Rightarrow> r) (n @ [(CtxExit, [cm], r')])"
    using n(2) by (cases r') (auto simp: good_def halts_append_exit last_failure_append)
  then show ?thesis using t by (auto simp: step_def)
qed

lemma eval_step:
  "eval ext e s = (r, s') \<Longrightarrow> step (ops_expr e) (err r) s s'"
  "evals ext es s = (rs, s') \<Longrightarrow> step (ops_exprs es) (err rs) s s'"
proof (induction e and es arbitrary: s r s' and s rs s' rule: ops_expr_ops_exprs.induct)
qed (fastforce simp: eval_iffs step_refl simp del: eval.simps(1,3-9) evals.simps(2)
    intro: step_seq step_raise_left dest: step_call split: option.splits)+


lemma assign_Tuple_iff:
  "assign ext (Tuple ts) v s = (r, s') \<longleftrightarrow>
     (\<exists>vs. v = VTuple vs \<and> length vs = length ts \<and> assigns ext ts vs s = (r, s')) \<or>
     ((\<forall>vs. v = VTuple vs \<longrightarrow> length vs \<noteq> length ts) \<and> r = Some UnpackError \<and> s' = s)"
  by (cases v) auto

lemma assign_Subscript_iff:
  "assign ext (Subscript e i) v s = (r, s') \<longleftrightarrow>
     (\<exists>x. eval ext e s = (Inl x, s') \<and> r = Some x) \<or>
     (\<exists>c s1. eval ext e s = (Inr c, s1) \<and>
        ((\<exists>x. eval ext i s1 = (Inl x, s') \<and> r = Some x) \<or>
         (\<exists>iv s2 r'. eval ext i s1 = (Inr iv, s2) \<and>
            call ext SetItem [c, iv, v] s2 = (r', s') \<and> r = err r')))"
  by (auto split: prod.splits sum.splits)

lemma assign_Attr_iff:
  "assign ext (Attr e a) v s = (r, s') \<longleftrightarrow>
     (\<exists>x. eval ext e s = (Inl x, s') \<and> r = Some x) \<or>
     (\<exists>c s1 r'. eval ext e s = (Inr c, s1) \<and>
        call ext (SetAttr a) [c, v] s1 = (r', s') \<and> r = err r')"
  by (auto split: prod.splits sum.splits)

lemma assigns_Cons_iff:
  "assigns ext (t # ts) vs s = (r, s') \<longleftrightarrow>
     (vs = [] \<and> r = Some UnpackError \<and> s' = s) \<or>
     (\<exists>v vs'. vs = v # vs' \<and>
        ((\<exists>x. assign ext t v s = (Some x, s') \<and> r = Some x) \<or>
         (\<exists>s1. assign ext t v s = (None, s1) \<and> assigns ext ts vs' s1 = (r, s'))))"
  by (cases vs) (auto split: prod.splits option.splits)

lemmas assign_iffs = assign_Tuple_iff assign_Subscript_iff assign_Attr_iff assigns_Cons_iff

lemma assign_step:
  "assign ext t v s = (r, s') \<Longrightarrow> step (ops_target t) r s s'"
  "assigns ext ts vs s = (r, s') \<Longrightarrow> step (ops_targets ts) r s s'"
proof (induction t and ts arbitrary: v s r s' and vs s r s' rule: ops_target_ops_targets.induct)
qed (fastforce simp: assign_iffs step_refl step_raise
    simp del: assign.simps(2-4) assigns.simps(2)
    intro: step_seq step_raise_left dest: step_call eval_step)+

lemma exec_Import_iff:
  "exec ext (Import m a) s = (r, s') \<longleftrightarrow>
     (\<exists>x. call ext (ImportOp m) [] s = (Inl x, s') \<and> r = Some x) \<or>
     (\<exists>v s1. call ext (ImportOp m) [] s = (Inr v, s1) \<and> r = None \<and> s' = bind a v s1)"
  by (auto split: prod.splits sum.splits)

lemma exec_ImportFrom_iff:
  "exec ext (ImportFrom m n) s = (r, s') \<longleftrightarrow>
     (\<exists>x. call ext (ImportOp m) [] s = (Inl x, s') \<and> r = Some x) \<or>
     (\<exists>mv s1. call ext (ImportOp m) [] s = (Inr mv, s1) \<and>
        ((\<exists>x. call ext (GetAttr n) [mv] s1 = (Inl x, s') \<and> r = Some x) \<or>
         (\<exists>v s2. call ext (GetAttr n) [mv] s1 = (Inr v, s2) \<and> r = None \<and> s' = bind n v s2)))"
  by (auto split: prod.splits sum.splits)

lemma exec_Magic_iff:
  "exec ext (Magic m) s = (r, s') \<longleftrightarrow>
     (\<exists>r'. call ext (MagicOp m) [] s = (r', s') \<and> r = err r')"
  by (auto split: prod.splits sum.splits)

lemma exec_Assign_iff:
  "exec ext (Assign t e) s = (r, s') \<longleftrightarrow>
     (\<exists>x. eval ext e s = (Inl x, s') \<and> r = Some x) \<or>
     (\<exists>v s1. eval ext e s = (Inr v, s1) \<and> assign ext t v s1 = (r, s'))"
  by (auto split: prod.splits sum.splits)

lemma exec_Expr_iff:
  "exec ext (Expr e) s = (r, s') \<longleftrightarrow> (\<exists>r'. eval ext e s = (r', s') \<and> r = err r')"
  by (auto split: prod.splits sum.splits)

lemma exec_With_iff:
  "exec ext (With e x body) s = (r, s') \<longleftrightarrow>
     (\<exists>y. eval ext e s = (Inl y, s') \<and> r = Some y) \<or>
     (\<exists>cm s1. eval ext e s = (Inr cm, s1) \<and>
        ((\<exists>y. call ext CtxEnter [cm] s1 = (Inl y, s') \<and> r = Some y) \<or>
         (\<exists>v s2 rb s3 r'. call ext CtxEnter [cm] s1 = (Inr v, s2) \<and>
            execs ext body (bind x v s2) = (rb, s3) \<and>
            call ext CtxExit [cm] s3 = (r', s') \<and>
            r = (case r' of Inl y \<Rightarrow> Some y | Inr u \<Rightarrow> rb))))"
  by (auto split: prod.splits sum.splits)

lemma execs_Cons_iff:
  "execs ext (c # cs) s = (r, s') \<longleftrightarrow>
     (\<exists>x. exec ext c s = (Some x, s') \<and> r = Some x) \<or>
     (\<exists>s1. exec ext c s = (None, s1) \<and> execs ext cs s1 = (r, s'))"
  by (auto split: prod.splits option.splits)

lemmas exec_iffs = exec_Import_iff exec_ImportFrom_iff exec_Magic_iff exec_Assign_iff
  exec_Expr_iff exec_With_iff execs_Cons_iff

lemma step_with:
  assumes "step opse None s s1" and "step [CtxEnter] None s1 s2"
    and "step opsb rb s2 s3" and "call ext CtxExit [cm] s3 = (r', s4)"
  shows "step (opse @ [CtxEnter] @ opsb @ [CtxExit])
           (case r' of Inl y \<Rightarrow> Some y | Inr u \<Rightarrow> rb) s s4"
  using step_seq[OF assms(1) step_seq[OF assms(2) step_exit[OF assms(3,4)]]] by simp

lemma exec_step:
  "exec ext c s = (r, s') \<Longrightarrow> step (ops_stmt c) r s s'"
  "execs ext cs s = (r, s') \<Longrightarrow> step (ops_stmts cs) r s s'"
proof (induction c and cs arbitrary: s r s' and s r s' rule: ops_stmt_ops_stmts.induct)
  case (6 e x body)
  from "6.prems" show ?case
    unfolding exec_With_iff ops_stmt.simps
  proof (elim disjE exE conjE)
    fix y assume "eval ext e s = (Inl y, s')" "r = Some y"
    then show "step (ops_expr e @ [CtxEnter] @ ops_stmts body @ [CtxExit]) r s s'"
      using eval_step(1) step_raise_left by fastforce
  next
    fix cm s1 y
    assume "eval ext e s = (Inr cm, s1)" "call ext CtxEnter [cm] s1 = (Inl y, s')" "r = Some y"
    then show "step (ops_expr e @ [CtxEnter] @ ops_stmts body @ [CtxExit]) r s s'"
      using eval_step(1) step_call step_seq step_raise_left by fastforce
  next
    fix cm s1 v s2 rb s3 r'
    assume a: "eval ext e s = (Inr cm, s1)" "call ext CtxEnter [cm] s1 = (Inr v, s2)"
      "execs ext body (bind x v s2) = (rb, s3)" "call ext CtxExit [cm] s3 = (r', s')"
      "r = (case r' of Inl y \<Rightarrow> Some y | Inr u \<Rightarrow> rb)"
    have 1: "step (ops_expr e) None s s1" using eval_step(1)[OF a(1)] by simp
    have 2: "step [CtxEnter] None s1 s2" using step_call[OF a(2)] by simp
    have 3: "step (ops_stmts body) rb s2 s3" using "6.IH"[OF a(3)] by simp
    show "step (ops_expr e @ [CtxEnter] @ ops_stmts body @ [CtxExit]) r s s'"
      using step_with[OF 1 2 3 a(4)] a(5) by simp
  qed
next
  case (2 m n)
  have two: "[ImportOp m, GetAttr n] = [ImportOp m] @ [GetAttr n]" by simp
  from "2.prems" show ?case
    unfolding exec_ImportFrom_iff ops_stmt.simps two
    by (fastforce intro: step_seq step_raise_left dest: step_call)
qed (fastforce simp: exec_iffs step_refl step_raise
    simp del: exec.simps(1-6) execs.simps(2)
    intro: step_seq step_raise_left dest: step_call eval_step assign_step)+

lemma run_good: "run ext nb w = (r, s') \<Longrightarrow> good (ops_of nb) r (trace s')"
  using exec_step(2)[of ext "concat nb" "initial w" r s']
  by (auto simp: run_def step_def initial_def ops_of_def)


subsection \<open>Scope\<close>

lemma succeeds_call:
  assumes "succeeds ext"
  shows "\<exists>v s'. call ext p args s = (Inr v, s') \<and> env s' = env s"
proof -
  from assms obtain v w' where "ext p args (world s) = (Inr v, w')"
    unfolding succeeds_def by blast
  then show ?thesis by (simp add: call_def)
qed

lemma succeeds_subplots:
  assumes "succeeds ext" and "call ext (CallOp ''subplots'') args s = (Inr v, s')"
  shows "\<exists>a b. v = VTuple [a, b]"
proof -
  from assms(1) obtain v' w' where e: "ext (CallOp ''subplots'') args (world s) = (Inr v', w')"
    and t: "\<exists>a b. v' = VTuple [a, b]"
    unfolding succeeds_def by blast
  from assms(2) e have "v = v'" by (simp add: call_def)
  with t show ?thesis by simp
qed

lemma eval_ok:
  "succeeds ext \<Longrightarrow> expr_ok D e \<Longrightarrow> set D \<subseteq> dom (env s) \<Longrightarrow>
     \<exists>v s'. eval ext e s = (Inr v, s') \<and> env s' = env s"
  "succeeds ext \<Longrightarrow> list_all (expr_ok D) es \<Longrightarrow> set D \<subseteq> dom (env s) \<Longrightarrow>
     \<exists>vs s'. evals ext es s = (Inr vs, s') \<and> env s' = env s"
proof (induction e and es arbitrary: s and s rule: ops_expr_ops_exprs.induct)
  case (1 x)
  then have "x \<in> dom (env s)" by auto
  then show ?case by auto
next
  case (2 c)
  show ?case by simp
next
  case (3 e a)
  have "expr_ok D e" using "3.prems"(2) by simp
  from "3.IH"[OF "3.prems"(1) this "3.prems"(3)]
  obtain v s1 where e: "eval ext e s = (Inr v, s1)" "env s1 = env s" by blast
  obtain v' s2 where "call ext (GetAttr a) [v] s1 = (Inr v', s2)" "env s2 = env s1"
    using succeeds_call[OF "3.prems"(1)] by blast
  with e show ?case by simp
next
  case (4 f args)
  have ok: "expr_ok D f" "list_all (expr_ok D) args" using "4.prems"(2) by simp_all
  from "4.IH"(1)[OF "4.prems"(1) ok(1) "4.prems"(3)]
  obtain fv s1 where f: "eval ext f s = (Inr fv, s1)" "env s1 = env s" by blast
  have "set D \<subseteq> dom (env s1)" using f(2) "4.prems"(3) by simp
  from "4.IH"(2)[OF "4.prems"(1) ok(2) this]
  obtain vs s2 where a: "evals ext args s1 = (Inr vs, s2)" "env s2 = env s1" by blast
  obtain v' s3 where "call ext (CallOp (callee_name f)) (fv # vs) s2 = (Inr v', s3)" "env s3 = env s2"
    using succeeds_call[OF "4.prems"(1)] by blast
  with f a show ?case by simp
next
  case (5 k e)
  have "expr_ok D e" using "5.prems"(2) by simp
  from "5.IH"[OF "5.prems"(1) this "5.prems"(3)]
  obtain v s1 where "eval ext e s = (Inr v, s1)" "env s1 = env s" by blast
  then show ?case by simp
next
  case (6 e i)
  have ok: "expr_ok D e" "expr_ok D i" using "6.prems"(2) by simp_all
  from "6.IH"(1)[OF "6.prems"(1) ok(1) "6.prems"(3)]
  obtain v s1 where e: "eval ext e s = (Inr v, s1)" "env s1 = env s" by blast
  have "set D \<subseteq> dom (env s1)" using e(2) "6.prems"(3) by simp
  from "6.IH"(2)[OF "6.prems"(1) ok(2) this]
  obtain iv s2 where i: "eval ext i s1 = (Inr iv, s2)" "env s2 = env s1" by blast
  obtain v' s3 where "call ext GetItem [v, iv] s2 = (Inr v', s3)" "env s3 = env s2"
    using succeeds_call[OF "6.prems"(1)] by blast
  with e i show ?case by simp
next
  case (7 lo hi)
  have ok: "expr_ok D lo" "expr_ok D hi" using "7.prems"(2) by simp_all
  from "7.IH"(1)[OF "7.prems"(1) ok(1) "7.prems"(3)]
  obtain l s1 where l: "eval ext lo s = (Inr l, s1)" "env s1 = env s" by blast
  have "set D \<subseteq> dom (env s1)" using l(2) "7.prems"(3) by simp
  from "7.IH"(2)[OF "7.prems"(1) ok(2) this]
  obtain h s2 where "eval ext hi s1 = (Inr h, s2)" "env s2 = env s1" by blast
  with l show ?case by simp
next
  case (8 es)
  have "list_all (expr_ok D) es" using "8.prems"(2) by simp
  from "8.IH"[OF "8.prems"(1) this "8.prems"(3)]
  obtain vs s1 where "evals ext es s = (Inr vs, s1)" "env s1 = env s" by blast
  then show ?case by simp
next
  case (9 e)
  have "expr_ok D e" using "9.prems"(2) by simp
  from "9.IH"[OF "9.prems"(1) this "9.prems"(3)]
  obtain v s1 where e: "eval ext e s = (Inr v, s1)" "env s1 = env s" by blast
  obtain v' s2 where "call ext InvertOp [v] s1 = (Inr v', s2)" "env s2 = env s1"
    using succeeds_call[OF "9.prems"(1)] by blast
  with e show ?case by simp
next
  case 14
  show ?case by simp
next
  case (15 e es)
  have ok: "expr_ok D e" "list_all (expr_ok D) es" using "15.prems"(2) by simp_all
  from "15.IH"(1)[OF "15.prems"(1) ok(1) "15.prems"(3)]
  obtain v s1 where e: "eval ext e s = (Inr v, s1)" "env s1 = env s" by blast
  have "set D \<subseteq> dom (env s1)" using e(2) "15.prems"(3) by simp
  from "15.IH"(2)[OF "15.prems"(1) ok(2) this]
  obtain vs s2 where "evals ext es s1 = (Inr vs, s2)" "env s2 = env s1" by blast
  with e show ?case by simp
qed simp_all


lemma is_name_iff: "is_name e \<longleftrightarrow> (\<exists>x. e = Name x)"
  by (cases e) simp_all

lemma assign_ok:
  assumes ext: "succeeds ext" and ok: "target_ok D t e" and D: "set D \<subseteq> dom (env s)"
    and pair: "\<And>ts. t = Tuple ts \<Longrightarrow> \<exists>a b. v = VTuple [a, b]"
  shows "\<exists>s'. assign ext t v s = (None, s') \<and> set (target_names t @ D) \<subseteq> dom (env s')"
proof (cases t)
  case (Name x)
  then show ?thesis using D by auto
next
  case (Tuple ts)
  with ok have "list_all is_name ts" "length ts = 2" by simp_all
  then obtain x y where ts: "ts = [Name x, Name y]"
    by (cases ts; cases "tl ts") (auto simp: is_name_iff)
  from pair[OF Tuple] obtain a b where v: "v = VTuple [a, b]" by blast
  show ?thesis using D by (auto simp: Tuple ts v)
next
  case (Subscript c i)
  with ok have c: "expr_ok D c" and i: "expr_ok D i" by simp_all
  from eval_ok(1)[OF ext c D]
  obtain cv s1 where 1: "eval ext c s = (Inr cv, s1)" "env s1 = env s" by blast
  have "set D \<subseteq> dom (env s1)" using 1(2) D by simp
  from eval_ok(1)[OF ext i this]
  obtain iv s2 where 2: "eval ext i s1 = (Inr iv, s2)" "env s2 = env s1" by blast
  obtain u s3 where 3: "call ext SetItem [cv, iv, v] s2 = (Inr u, s3)" "env s3 = env s2"
    using succeeds_call[OF ext] by blast
  show ?thesis using 1 2 3 D by (simp add: Subscript)
next
  case (Attr c a)
  with ok have c: "expr_ok D c" by simp
  from eval_ok(1)[OF ext c D]
  obtain cv s1 where 1: "eval ext c s = (Inr cv, s1)" "env s1 = env s" by blast
  obtain u s2 where 2: "call ext (SetAttr a) [cv, v] s1 = (Inr u, s2)" "env s2 = env s1"
    using succeeds_call[OF ext] by blast
  show ?thesis using 1 2 D by (simp add: Attr)
qed (use ok in simp_all)

lemma subplots_pair:
  assumes ext: "succeeds ext" and ok: "target_ok D (Tuple ts) e"
    and ev: "eval ext e s = (Inr v, s')"
  shows "\<exists>a b. v = VTuple [a, b]"
proof -
  from ok obtain f args where e: "e = Call f args" and f: "callee_name f = ''subplots''"
    by (cases e) auto
  from ev[unfolded e eval_Call_iff] f obtain args' s2
    where "call ext (CallOp ''subplots'') args' s2 = (Inr v, s')" by auto
  then show ?thesis by (rule succeeds_subplots[OF ext])
qed

lemma exec_ok:
  "succeeds ext \<Longrightarrow> stmt_ok D c = Some D' \<Longrightarrow> set D \<subseteq> dom (env s) \<Longrightarrow>
     \<exists>s'. exec ext c s = (None, s') \<and> set D' \<subseteq> dom (env s')"
  "succeeds ext \<Longrightarrow> stmts_ok D cs = Some D' \<Longrightarrow> set D \<subseteq> dom (env s) \<Longrightarrow>
     \<exists>s'. execs ext cs s = (None, s') \<and> set D' \<subseteq> dom (env s')"
proof (induction c and cs arbitrary: D D' s and D D' s rule: ops_stmt_ops_stmts.induct)
  case (1 m a)
  obtain v s1 where "call ext (ImportOp m) [] s = (Inr v, s1)" "env s1 = env s"
    using succeeds_call[OF "1.prems"(1)] by blast
  then show ?case using "1.prems"(2,3) by auto
next
  case (2 m n)
  obtain mv s1 where 1: "call ext (ImportOp m) [] s = (Inr mv, s1)" "env s1 = env s"
    using succeeds_call[OF "2.prems"(1)] by blast
  obtain v s2 where 2: "call ext (GetAttr n) [mv] s1 = (Inr v, s2)" "env s2 = env s1"
    using succeeds_call[OF "2.prems"(1)] by blast
  show ?case using 1 2 "2.prems"(2,3) by auto
next
  case (3 m)
  obtain v s1 where "call ext (MagicOp m) [] s = (Inr v, s1)" "env s1 = env s"
    using succeeds_call[OF "3.prems"(1)] by blast
  then show ?case using "3.prems"(2,3) by auto
next
  case (4 t e)
  from "4.prems"(2) have e: "expr_ok D e" and t: "target_ok D t e"
    and D': "D' = target_names t @ D" by (auto split: if_splits)
  from eval_ok(1)[OF "4.prems"(1) e "4.prems"(3)]
  obtain v s1 where 1: "eval ext e s = (Inr v, s1)" "env s1 = env s" by blast
  have D1: "set D \<subseteq> dom (env s1)" using 1(2) "4.prems"(3) by simp
  have "\<And>ts. t = Tuple ts \<Longrightarrow> \<exists>a b. v = VTuple [a, b]"
    using subplots_pair[OF "4.prems"(1) _ 1(1)] t by blast
  from assign_ok[OF "4.prems"(1) t D1 this]
  obtain s2 where "assign ext t v s1 = (None, s2)" "set (target_names t @ D) \<subseteq> dom (env s2)"
    by blast
  then show ?case using 1 D' by simp
next
  case (5 e)
  from "5.prems"(2) have e: "expr_ok D e" and D': "D' = D" by (auto split: if_splits)
  from eval_ok(1)[OF "5.prems"(1) e "5.prems"(3)]
  obtain v s1 where 1: "eval ext e s = (Inr v, s1)" "env s1 = env s" by blast
  then show ?case using "5.prems"(3) D' by simp
next
  case (6 e x body)
  from "6.prems"(2) have e: "expr_ok D e" and b: "stmts_ok (x # D) body = Some D'"
    by (auto split: if_splits)
  from eval_ok(1)[OF "6.prems"(1) e "6.prems"(3)]
  obtain cm s1 where 1: "eval ext e s = (Inr cm, s1)" "env s1 = env s" by blast
  obtain v s2 where 2: "call ext CtxEnter [cm] s1 = (Inr v, s2)" "env s2 = env s1"
    using succeeds_call[OF "6.prems"(1)] by blast
  have "set (x # D) \<subseteq> dom (env (bind x v s2))" using 1(2) 2(2) "6.prems"(3) by auto
  from "6.IH"[OF "6.prems"(1) b this]
  obtain s3 where 3: "execs ext body (bind x v s2) = (None, s3)" "set D' \<subseteq> dom (env s3)"
    by blast
  obtain u s4 where 4: "call ext CtxExit [cm] s3 = (Inr u, s4)" "env s4 = env s3"
    using succeeds_call[OF "6.prems"(1)] by blast
  show ?case using 1 2 3 4 by simp
next
  case 13
  then show ?case by simp
next
  case (14 c cs)
  from "14.prems"(2) obtain D1 where c: "stmt_ok D c = Some D1" and cs: "stmts_ok D1 cs = Some D'"
    by (auto split: option.splits)
  from "14.IH"(1)[OF "14.prems"(1) c "14.prems"(3)]
  obtain s1 where 1: "exec ext c s = (None, s1)" "set D1 \<subseteq> dom (env s1)" by blast
  from "14.IH"(2)[OF "14.prems"(1) cs 1(2)]
  obtain s2 where "execs ext cs s1 = (None, s2)" "set D' \<subseteq> dom (env s2)" by blast
  with 1 show ?case by simp
qed simp_all

lemma run_ok:
  assumes "succeeds ext" and "well_scoped nb"
  shows "fst (run ext nb w) = None"
proof -
  from assms(2) obtain D' where ok: "stmts_ok builtins (concat nb) = Some D'"
    by (auto simp: well_scoped_def)
  have "set builtins \<subseteq> dom (env (initial w))"
    by (auto simp: initial_def dom_map_of_conv_image_fst image_image)
  from exec_ok(2)[OF assms(1) ok this] show ?thesis by (auto simp: run_def)
qed

subsection \<open>The notebooks run to completion\<close>

lemma notebooks_well_scoped: "list_all well_scoped notebooks"
  by (simp add: notebooks_def well_scoped_def builtins_def part_000_def part_001_def
      kepler_plotting_target_pixel_files_def kepler_creating_your_own_light_curves_def)

lemma succeeds_obliging: "succeeds obliging"
  by (simp add: succeeds_def obliging_def result_of_def)

text \<open>
  C1. When every operation of the external libraries succeeds (and \<open>subplots\<close> returns its
  pair), every notebook executes all its cells from top to bottom and raises nothing.
\<close>

theorem notebooks_complete:
  assumes "nb \<in> set notebooks" and "succeeds ext"
  shows "fst (run ext nb w) = None"
proof -
  from assms(1) notebooks_well_scoped have "well_scoped nb"
    by (simp add: list_all_iff)
  with assms(2) show ?thesis by (rule run_ok)
qed

theorem notebooks_complete_witness:
  "part_001 \<in> set notebooks \<and> succeeds obliging \<and> fst (run obliging part_001 ()) = None"
proof -
  have m: "part_001 \<in> set notebooks" by (simp add: notebooks_def)
  show ?thesis using m succeeds_obliging notebooks_complete[OF m succeeds_obliging] by simp
qed

lemma in_notebooks:
  "nb \<in> set notebooks \<longleftrightarrow> nb = part_000 \<or> nb = part_001 \<or>
     nb = kepler_plotting_target_pixel_files \<or> nb = kepler_creating_your_own_light_curves"
  by (auto simp: notebooks_def)

subsection \<open>Failures propagate\<close>

lemma notebooks_handler_free: "list_all (\<lambda>nb. list_all handler_free (concat nb)) notebooks"
  by (simp add: notebooks_def part_000_def part_001_def
      kepler_plotting_target_pixel_files_def kepler_creating_your_own_light_curves_def)

text \<open>
  C2. No notebook contains a handler or a retry loop, and in every run of a notebook against
  any library a failed library operation ends the run: nothing is issued after the first
  failure but the exits of the \<open>with\<close> blocks that are open, and the exception the run
  raises is the one of the last failed operation, unchanged (the first failure itself,
  unless the exit of a \<open>with\<close> block fails as well).
\<close>

theorem failures_propagate:
  assumes "nb \<in> set notebooks" and "run ext nb w = (r, s)"
  shows "list_all handler_free (concat nb) \<and>
         halts_after_failure (trace s) \<and>
         (last_failure (trace s) = None \<or> last_failure (trace s) = r)"
proof -
  from assms(1) notebooks_handler_free have "list_all handler_free (concat nb)"
    by (simp add: list_all_iff)
  moreover from run_good[OF assms(2)]
  have "halts_after_failure (trace s)"
    and "last_failure (trace s) = None \<or> last_failure (trace s) = r"
    by (simp_all add: good_def)
  ultimately show ?thesis by simp
qed

lemma run_offline_part_001:
  "fst (run offline part_001 ()) = Some (LibraryError ''ConnectionError'')"
  "last_failure (trace (snd (run offline part_001 ()))) = Some (LibraryError ''ConnectionError'')"
  by (simp_all add: run_def part_001_def initial_def builtins_def call_def bind_def
      offline_def result_of_def remote_queries_def)

theorem failures_propagate_witness:
  "part_001 \<in> set notebooks \<and>
   fst (run offline part_001 ()) = Some (LibraryError ''ConnectionError'') \<and>
   last_failure (trace (snd (run offline part_001 ()))) = Some (LibraryError ''ConnectionError'') \<and>
   halts_after_failure (trace (snd (run offline part_001 ()))) \<and>
   list_all handler_free (concat part_001)"
proof -
  have m: "part_001 \<in> set notebooks" by (simp add: notebooks_def)
  have r: "run offline part_001 () = (fst (run offline part_001 ()), snd (run offline part_001 ()))"
    by simp
  show ?thesis using m run_offline_part_001 failures_propagate[OF m r] by simp
qed

subsection \<open>Straight-line scripts\<close>

lemma notebooks_linear: "list_all linear_script notebooks"
  by (simp add: notebooks_def linear_script_def part_000_def part_001_def
      kepler_plotting_target_pixel_files_def kepler_creating_your_own_light_curves_def)

lemma notebooks_only_external_calls: "list_all only_external_calls notebooks"
  by (simp add: notebooks_def only_external_calls_def builtins_def part_000_def part_001_def
      kepler_plotting_target_pixel_files_def kepler_creating_your_own_light_curves_def)

text \<open>
  The notebooks import the six libraries and nothing else: no module of threads, processes,
  coroutines or signals.
\<close>

lemma notebooks_import_libraries:
  "list_all (\<lambda>nb. list_all (\<lambda>m. m \<in> set libraries) (concat (map imported_modules (concat nb))))
     notebooks"
  by (simp add: notebooks_def libraries_def part_000_def part_001_def
      kepler_plotting_target_pixel_files_def kepler_creating_your_own_light_curves_def)

lemma run_bounded: "length (trace (snd (run ext nb w))) \<le> length (ops_of nb)"
  using run_good[of ext nb w "fst (run ext nb w)" "snd (run ext nb w)"]
  by (simp add: good_def)

lemma run_issued:
  assumes "run ext nb w = (None, s)"
  shows "issued s = ops_of nb"
  using run_good[OF assms] by (simp add: good_def issued_def)

text \<open>
  C5. Every notebook is a straight-line script: no loop, conditional, function or class
  definition, lambda, comprehension, binary operator or comparison occurs in it (the unary
  \<open>~\<close> may, as an operation of the library), and everything it calls is external. Its run is a total function that issues no more library operations
  than the script has, and exactly those, in order, when it completes.
\<close>

theorem notebooks_are_linear_scripts:
  assumes "nb \<in> set notebooks"
  shows "linear_script nb \<and> only_external_calls nb \<and>
         length (trace (snd (run ext nb w))) \<le> length (ops_of nb) \<and>
         (fst (run ext nb w) = None \<longrightarrow> issued (snd (run ext nb w)) = ops_of nb)"
proof -
  from assms notebooks_linear notebooks_only_external_calls
  have "linear_script nb" "only_external_calls nb" by (simp_all add: list_all_iff)
  moreover have "fst (run ext nb w) = None \<longrightarrow> issued (snd (run ext nb w)) = ops_of nb"
    using run_issued[of ext nb w "snd (run ext nb w)"] by (metis prod.collapse)
  ultimately show ?thesis using run_bounded[of ext nb w] by simp
qed

theorem notebooks_are_linear_scripts_witness:
  "part_000 \<in> set notebooks \<and> linear_script part_000 \<and> only_external_calls part_000 \<and>
   fst (run obliging part_000 ()) = None \<and>
   issued (snd (run obliging part_000 ())) = ops_of part_000"
proof -
  have m: "part_000 \<in> set notebooks" by (simp add: notebooks_def)
  have "well_scoped part_000" using m notebooks_well_scoped by (simp add: list_all_iff)
  then have "fst (run obliging part_000 ()) = None"
    by (rule run_ok[OF succeeds_obliging])
  then show ?thesis
    using m notebooks_are_linear_scripts[OF m, of obliging "()"] by simp
qed

subsection \<open>Queries, downloads and plots\<close>

lemma counts_part_000:
  "count_calls remote_queries (ops_of part_000) = 2"
  "count_calls downloads (ops_of part_000) = 1"
  "count_calls plot_calls (ops_of part_000) = 4"
  by (simp_all add: count_calls_def ops_of_def part_000_def remote_queries_def downloads_def
      plot_calls_def)

lemma counts_part_001:
  "count_calls remote_queries (ops_of part_001) = 1"
  "count_calls downloads (ops_of part_001) = 1"
  "count_calls plot_calls (ops_of part_001) = 14"
  by (simp_all add: count_calls_def ops_of_def part_001_def remote_queries_def downloads_def
      plot_calls_def)

lemma counts_kepler_plotting_target_pixel_files:
  "count_calls remote_queries (ops_of kepler_plotting_target_pixel_files) = 2"
  "count_calls downloads (ops_of kepler_plotting_target_pixel_files) = 3"
  "count_calls plot_calls (ops_of kepler_plotting_target_pixel_files) = 13"
  by (simp_all add: count_calls_def ops_of_def kepler_plotting_target_pixel_files_def
      remote_queries_def downloads_def plot_calls_def)

lemma counts_kepler_creating_your_own_light_curves:
  "count_calls remote_queries (ops_of kepler_creating_your_own_light_curves) = 3"
  "count_calls downloads (ops_of kepler_creating_your_own_light_curves) = 3"
  "count_calls plot_calls (ops_of kepler_creating_your_own_light_curves) = 21"
  by (simp_all add: count_calls_def ops_of_def kepler_creating_your_own_light_curves_def
      remote_queries_def downloads_def plot_calls_def)

lemma run_obliging_fst:
  assumes "nb \<in> set notebooks"
  shows "fst (run obliging nb ()) = None"
proof -
  from assms notebooks_well_scoped have "well_scoped nb" by (simp add: list_all_iff)
  then show ?thesis by (rule run_ok[OF succeeds_obliging])
qed

lemma run_obliging_completes:
  assumes "nb \<in> set notebooks"
  shows "run obliging nb () = (None, snd (run obliging nb ()))"
  using run_obliging_fst[OF assms] by (metis prod.collapse)

text \<open>
  C4, as stated, fails: the full run of \<open>part_000\<close> against the obliging library issues four
  plotting calls (its four \<open>plt.imshow\<close>), more than two.
\<close>

theorem at_most_two_plots_counterexample:
  "fst (run obliging part_000 ()) = None \<and>
   count_calls plot_calls (issued (snd (run obliging part_000 ()))) = 4 \<and>
   \<not> count_calls plot_calls (issued (snd (run obliging part_000 ()))) \<le> 2"
proof -
  have m: "part_000 \<in> set notebooks" by (simp add: notebooks_def)
  have "issued (snd (run obliging part_000 ())) = ops_of part_000"
    by (rule run_issued[OF run_obliging_completes[OF m]])
  then show ?thesis using run_obliging_fst[OF m] counts_part_000(3) by simp
qed

text \<open>
  C4, amended. In every full run of a notebook the archive is queried at most three times,
  files are downloaded at most three times, and between 4 and 21 plotting calls are issued.
\<close>

theorem notebook_call_counts:
  assumes "nb \<in> set notebooks" and "run ext nb w = (None, s)"
  shows "count_calls remote_queries (issued s) \<le> 3 \<and>
         count_calls downloads (issued s) \<le> 3 \<and>
         4 \<le> count_calls plot_calls (issued s) \<and>
         count_calls plot_calls (issued s) \<le> 21"
proof -
  have i: "issued s = ops_of nb" by (rule run_issued[OF assms(2)])
  from assms(1) consider "nb = part_000" | "nb = part_001"
    | "nb = kepler_plotting_target_pixel_files" | "nb = kepler_creating_your_own_light_curves"
    by (auto simp: in_notebooks)
  then show ?thesis
  proof cases
    case 1
    then show ?thesis using i counts_part_000 by simp
  next
    case 2
    then show ?thesis using i counts_part_001 by simp
  next
    case 3
    then show ?thesis using i counts_kepler_plotting_target_pixel_files by simp
  next
    case 4
    then show ?thesis using i counts_kepler_creating_your_own_light_curves by simp
  qed
qed

theorem notebook_call_counts_witness:
  "kepler_creating_your_own_light_curves \<in> set notebooks \<and>
   fst (run obliging kepler_creating_your_own_light_curves ()) = None \<and>
   count_calls remote_queries (issued (snd (run obliging kepler_creating_your_own_light_curves ()))) \<le> 3 \<and>
   count_calls downloads (issued (snd (run obliging kepler_creating_your_own_light_curves ()))) \<le> 3 \<and>
   count_calls plot_calls (issued (snd (run obliging kepler_creating_your_own_light_curves ()))) \<le> 21"
proof -
  have m: "kepler_creating_your_own_light_curves \<in> set notebooks" by (simp add: notebooks_def)
  show ?thesis
    using m run_obliging_fst[OF m] notebook_call_counts[OF m run_obliging_completes[OF m]]
    by simp
qed

subsection \<open>Determinism\<close>

lemma agree_simps [simp]:
  "agree [] ext1 ext2"
  "agree (p # ops) ext1 ext2 \<longleftrightarrow> (\<forall>args w. ext1 p args w = ext2 p args w) \<and> agree ops ext1 ext2"
  "agree (ops @ ops') ext1 ext2 \<longleftrightarrow> agree ops ext1 ext2 \<and> agree ops' ext1 ext2"
  by (auto simp: agree_def)

lemma call_agree: "\<forall>args w. ext1 p args w = ext2 p args w \<Longrightarrow> call ext1 p args s = call ext2 p args s"
  by (simp add: call_def)

lemma eval_agree:
  "agree (ops_expr e) ext1 ext2 \<Longrightarrow> eval ext1 e s = eval ext2 e s"
  "agree (ops_exprs es) ext1 ext2 \<Longrightarrow> evals ext1 es s = evals ext2 es s"
proof (induction e and es arbitrary: s and s rule: ops_expr_ops_exprs.induct)
qed (simp_all add: call_agree[of ext1 _ ext2] cong: prod.case_cong sum.case_cong)

lemma assign_agree:
  "agree (ops_target t) ext1 ext2 \<Longrightarrow> assign ext1 t v s = assign ext2 t v s"
  "agree (ops_targets ts) ext1 ext2 \<Longrightarrow> assigns ext1 ts vs s = assigns ext2 ts vs s"
proof (induction t and ts arbitrary: v s and vs s rule: ops_target_ops_targets.induct)
qed (simp_all add: call_agree[of ext1 _ ext2] eval_agree[of _ ext1 ext2]
    cong: prod.case_cong sum.case_cong option.case_cong val.case_cong list.case_cong if_cong)

lemma exec_agree:
  "agree (ops_stmt c) ext1 ext2 \<Longrightarrow> exec ext1 c s = exec ext2 c s"
  "agree (ops_stmts cs) ext1 ext2 \<Longrightarrow> execs ext1 cs s = execs ext2 cs s"
proof (induction c and cs arbitrary: s and s rule: ops_stmt_ops_stmts.induct)
qed (simp_all add: call_agree[of ext1 _ ext2] eval_agree[of _ ext1 ext2]
    assign_agree[of _ ext1 ext2] cong: prod.case_cong sum.case_cong option.case_cong)

lemma run_agree: "agree (ops_of nb) ext1 ext2 \<Longrightarrow> run ext1 nb w = run ext2 nb w"
  by (simp add: run_def ops_of_def exec_agree)

lemma notebooks_not_ambient:
  "list_all (\<lambda>nb. list_all (\<lambda>p. \<not> ambient p) (ops_of nb)) notebooks"
  by (simp add: notebooks_def ops_of_def ambient_modules_def ambient_names_def part_000_def
      part_001_def kepler_plotting_target_pixel_files_def
      kepler_creating_your_own_light_curves_def)

text \<open>
  C10. A notebook reads no random source, clock or process environment: its run, and with
  it every value it binds and every operand it passes, is the same under any two libraries
  that answer alike on everything else.
\<close>

theorem runs_are_deterministic:
  assumes "nb \<in> set notebooks" and "same_but_ambient ext1 ext2"
  shows "run ext1 nb w = run ext2 nb w"
proof -
  from assms(1) notebooks_not_ambient have "list_all (\<lambda>p. \<not> ambient p) (ops_of nb)"
    by (simp add: list_all_iff)
  with assms(2) have "agree (ops_of nb) ext1 ext2"
    by (auto simp: agree_def same_but_ambient_def list_all_iff)
  then show ?thesis by (rule run_agree)
qed

lemma same_but_ambient_moody: "same_but_ambient obliging moody"
  by (simp add: same_but_ambient_def moody_def)

theorem runs_are_deterministic_witness:
  "part_001 \<in> set notebooks \<and> same_but_ambient obliging moody \<and>
   obliging (CallOp ''random'') [] () \<noteq> moody (CallOp ''random'') [] () \<and>
   run obliging part_001 () = run moody part_001 ()"
proof -
  have m: "part_001 \<in> set notebooks" by (simp add: notebooks_def)
  have d: "obliging (CallOp ''random'') [] () \<noteq> moody (CallOp ''random'') [] ()"
    by (simp add: moody_def obliging_def result_of_def ambient_names_def)
  show ?thesis
    using m d same_but_ambient_moody runs_are_deterministic[OF m same_but_ambient_moody]
    by simp
qed

subsection \<open>Outputs and persisted state\<close>

















subsection \<open>Aperture masks\<close>











subsection \<open>What repository code builds and changes\<close>





subsection \<open>Masking a light curve\<close>

lemma part_001_split: "concat part_001 = before_masking @ masking # after_masking"
  by (simp add: before_masking_def after_masking_def masking_def part_001_def)

lemma after_masking_assigned:
  "''lc'' \<notin> set (concat (map assigned after_masking))"
  "''masked_lc'' \<notin> set (concat (map assigned after_masking))"
  by (simp_all add: after_masking_def masking_def part_001_def)

lemma execs_append:
  "execs ext (a @ b) s =
     (case execs ext a s of (Some x, s1) \<Rightarrow> (Some x, s1) | (None, s1) \<Rightarrow> execs ext b s1)"
  by (induction a arbitrary: s) (auto split: prod.splits option.splits)

lemma assign_frame:
  "assign ext t v s = (r, s') \<Longrightarrow> x \<notin> set (target_names t) \<Longrightarrow> env s' x = env s x"
  "assigns ext ts vs s = (r, s') \<Longrightarrow> x \<notin> set (concat (map target_names ts)) \<Longrightarrow>
     env s' x = env s x"
proof (induction t and ts arbitrary: v s r s' and vs s r s' rule: ops_target_ops_targets.induct)
  case (1 y)
  then show ?case by auto
next
  case (2 ts)
  then show ?case by (fastforce simp: assign_Tuple_iff simp del: assign.simps(2))
next
  case (3 e i)
  then show ?case
    by (fastforce simp: assign_Subscript_iff simp del: assign.simps(3)
        dest: eval_env(1) call_env)
next
  case (4 e a)
  then show ?case
    by (fastforce simp: assign_Attr_iff simp del: assign.simps(4) dest: eval_env(1) call_env)
next
  case (15 t ts)
  from "15.prems"(1) show ?case
    unfolding assigns_Cons_iff
  proof (elim disjE exE conjE)
    fix v vs' y assume "assign ext t v s = (Some y, s')"
    then show ?thesis using "15.IH"(1) "15.prems"(2) by simp
  next
    fix v vs' s1 assume a: "assign ext t v s = (None, s1)" "assigns ext ts vs' s1 = (r, s')"
    have "env s1 x = env s x" using "15.IH"(1)[OF a(1)] "15.prems"(2) by simp
    moreover have "env s' x = env s1 x" using "15.IH"(2)[OF a(2)] "15.prems"(2) by simp
    ultimately show ?thesis by simp
  qed simp
qed auto


lemma exec_frame:
  "exec ext c s = (r, s') \<Longrightarrow> x \<notin> set (assigned c) \<Longrightarrow> env s' x = env s x"
  "execs ext cs s = (r, s') \<Longrightarrow> x \<notin> set (concat (map assigned cs)) \<Longrightarrow> env s' x = env s x"
proof (induction c and cs arbitrary: s r s' and s r s' rule: ops_stmt_ops_stmts.induct)
  case (1 m a)
  then show ?case by (fastforce simp: exec_Import_iff simp del: exec.simps(1) dest: call_env)
next
  case (2 m n)
  then show ?case
    by (fastforce simp: exec_ImportFrom_iff simp del: exec.simps(2) dest: call_env)
next
  case (3 m)
  then show ?case by (fastforce simp: exec_Magic_iff simp del: exec.simps(3) dest: call_env)
next
  case (4 t e)
  then show ?case
    by (fastforce simp: exec_Assign_iff simp del: exec.simps(4)
        dest: eval_env(1) assign_frame(1))
next
  case (5 e)
  then show ?case by (fastforce simp: exec_Expr_iff simp del: exec.simps(5) dest: eval_env(1))
next
  case (6 e y body)
  have x: "x \<noteq> y" "x \<notin> set (concat (map assigned body))" using "6.prems"(2) by auto
  from "6.prems"(1) show ?case
    unfolding exec_With_iff
  proof (elim disjE exE conjE)
    fix z assume "eval ext e s = (Inl z, s')"
    then show ?thesis using eval_env(1) by fastforce
  next
    fix cm s1 z assume "eval ext e s = (Inr cm, s1)" "call ext CtxEnter [cm] s1 = (Inl z, s')"
    then show ?thesis using eval_env(1) call_env by fastforce
  next
    fix cm s1 v s2 rb s3 r'
    assume a: "eval ext e s = (Inr cm, s1)" "call ext CtxEnter [cm] s1 = (Inr v, s2)"
      "execs ext body (bind y v s2) = (rb, s3)" "call ext CtxExit [cm] s3 = (r', s')"
    have "env s1 = env s" using eval_env(1)[OF a(1)] .
    moreover have "env s2 = env s1" using call_env[OF a(2)] .
    moreover have "env s3 x = env (bind y v s2) x" using "6.IH"[OF a(3) x(2)] .
    moreover have "env s' = env s3" using call_env[OF a(4)] .
    ultimately show ?thesis using x(1) by simp
  qed
next
  case (14 c cs)
  from "14.prems"(1) show ?case
    unfolding execs_Cons_iff
  proof (elim disjE exE conjE)
    fix z assume "exec ext c s = (Some z, s')"
    then show ?thesis using "14.IH"(1) "14.prems"(2) by simp
  next
    fix s1 assume a: "exec ext c s = (None, s1)" "execs ext cs s1 = (r, s')"
    have "env s1 x = env s x" using "14.IH"(1)[OF a(1)] "14.prems"(2) by simp
    moreover have "env s' x = env s1 x" using "14.IH"(2)[OF a(2)] "14.prems"(2) by simp
    ultimately show ?thesis by simp
  qed
qed auto

lemma select_Nil [simp]: "select [] m = []" "select xs [] = []"
  by (simp_all add: select_def)

lemma select_Cons [simp]:
  "select (x # xs) (f # m) = (if f = VConst (CBool True) then x # select xs m else select xs m)"
  by (simp add: select_def)

lemma flip_flag: "is_flag f \<Longrightarrow> (flip f = VConst (CBool True)) \<noteq> (f = VConst (CBool True))"
  by (cases f rule: is_flag.cases) auto

lemma select_partition:
  "length m = length xs \<Longrightarrow> list_all is_flag m \<Longrightarrow>
     mset (select xs m) + mset (select xs (map flip m)) = mset xs"
proof (induction m xs rule: list_induct2)
  case Nil
  show ?case by simp
next
  case (Cons f m x xs)
  then have "is_flag f" and IH: "mset (select xs m) + mset (select xs (map flip m)) = mset xs"
    by simp_all
  from flip_flag[OF \<open>is_flag f\<close>] IH show ?case by auto
qed

lemma masking_step:
  assumes ext: "numpy_masks ext"
    and lc: "env s ''lc'' = Some (VArray L)" and mask: "env s ''planet_b_mask'' = Some (VArray M)"
    and flags: "list_all is_flag M" and len: "length M = length L"
  shows "env (snd (exec ext masking s)) = (env s)(''masked_lc'' \<mapsto> VArray (select L (map flip M)))"
    and "fst (exec ext masking s) = None"
    and "world (snd (exec ext masking s)) = world s"
    and "fst (eval ext (Subscript (Name ''lc'') (Name ''planet_b_mask'')) (snd (exec ext masking s)))
           = Inr (VArray (select L M))"
proof -
  have i: "\<And>w. ext InvertOp [VArray M] w = (Inr (VArray (map flip M)), w)"
    using ext flags by (simp add: numpy_masks_def)
  have f: "list_all is_flag (map flip M)"
    using flags by (induction M) (auto elim: is_flag.elims)
  have g: "\<And>w. ext GetItem [VArray L, VArray (map flip M)] w
      = (Inr (VArray (select L (map flip M))), w)"
    using ext f len by (simp add: numpy_masks_def)
  have h: "\<And>w. ext GetItem [VArray L, VArray M] w = (Inr (VArray (select L M)), w)"
    using ext flags len by (simp add: numpy_masks_def)
  show "env (snd (exec ext masking s)) = (env s)(''masked_lc'' \<mapsto> VArray (select L (map flip M)))"
    and "fst (exec ext masking s) = None"
    and "world (snd (exec ext masking s)) = world s"
    and "fst (eval ext (Subscript (Name ''lc'') (Name ''planet_b_mask'')) (snd (exec ext masking s)))
           = Inr (VArray (select L M))"
    using lc mask by (simp_all add: masking_def call_def bind_def i g h)
qed


lemma run_part_001_after:
  assumes "execs ext before_masking (initial w) = (None, s)" and "fst (exec ext masking s) = None"
  shows "run ext part_001 w = execs ext after_masking (snd (exec ext masking s))"
proof -
  obtain r1 s1 where e: "exec ext masking s = (r1, s1)" by (cases "exec ext masking s")
  with assms(2) have "r1 = None" by simp
  with e assms(1) show ?thesis
    by (simp add: run_def part_001_split execs_append)
qed

text \<open>
  C9. Let the cells before \<open>masked_lc = lc[~planet_b_mask]\<close> have run, with \<open>lc\<close> a sequence
  of cadences and \<open>planet_b_mask\<close> a boolean mask of the same length, and let the library
  invert and index as numpy does. Then the statement completes and changes neither the world
  nor any variable but \<open>masked_lc\<close>, which becomes the cadences outside the mask, while
  \<open>lc[planet_b_mask]\<close> evaluates to the cadences inside it; \<open>lc\<close> and \<open>masked_lc\<close> are still the
  same at the end of the run of the notebook, however it ends; and the two selections
  together are exactly the cadences of \<open>lc\<close>, each position of the mask choosing one of them.
\<close>

theorem masking_keeps_lc:
  assumes "numpy_masks ext"
    and "execs ext before_masking (initial w) = (None, s)"
    and "env s ''lc'' = Some (VArray L)" and "env s ''planet_b_mask'' = Some (VArray M)"
    and "list_all is_flag M" and "length M = length L"
  shows "fst (exec ext masking s) = None \<and>
         env (snd (exec ext masking s)) = (env s)(''masked_lc'' \<mapsto> VArray (select L (map flip M))) \<and>
         world (snd (exec ext masking s)) = world s \<and>
         fst (eval ext (Subscript (Name ''lc'') (Name ''planet_b_mask'')) (snd (exec ext masking s)))
           = Inr (VArray (select L M)) \<and>
         env (snd (run ext part_001 w)) ''lc'' = Some (VArray L) \<and>
         env (snd (run ext part_001 w)) ''masked_lc'' = Some (VArray (select L (map flip M))) \<and>
         mset (select L M) + mset (select L (map flip M)) = mset L \<and>
         (\<forall>i < length M. (M ! i = VConst (CBool True)) \<noteq> (map flip M ! i = VConst (CBool True)))"
proof -
  note step = masking_step[OF assms(1,3,4,5,6)]
  let ?s1 = "snd (exec ext masking s)"
  have r: "run ext part_001 w = execs ext after_masking ?s1"
    by (rule run_part_001_after[OF assms(2) step(2)])
  have a: "execs ext after_masking ?s1 = (fst (run ext part_001 w), snd (run ext part_001 w))"
    using r by simp
  have lc: "env (snd (run ext part_001 w)) ''lc'' = env ?s1 ''lc''"
    by (rule exec_frame(2)[OF a after_masking_assigned(1)])
  have ml: "env (snd (run ext part_001 w)) ''masked_lc'' = env ?s1 ''masked_lc''"
    by (rule exec_frame(2)[OF a after_masking_assigned(2)])
  have p: "mset (select L M) + mset (select L (map flip M)) = mset L"
    by (rule select_partition[OF assms(6,5)])
  have x: "\<forall>i < length M. (M ! i = VConst (CBool True)) \<noteq> (map flip M ! i = VConst (CBool True))"
    using assms(5) flip_flag by (auto simp: list_all_length)
  show ?thesis using step lc ml p x assms(3) by simp
qed

lemma numpy_masks_kepler69: "numpy_masks kepler69"
  by (simp add: numpy_masks_def kepler69_def)

lemma kepler69_before_masking:
  "case execs kepler69 before_masking (initial ()) of
     (r, s) \<Rightarrow> r = None \<and> env s ''lc'' = Some (VArray [VObj 1, VObj 2, VObj 3, VObj 4]) \<and>
       env s ''planet_b_mask'' = Some (VArray [VConst (CBool False), VConst (CBool True),
          VConst (CBool False), VConst (CBool False)])"
  by (simp add: before_masking_def masking_def part_001_def initial_def builtins_def call_def
      bind_def kepler69_def result_of_def)

theorem masking_keeps_lc_witness:
  "numpy_masks kepler69 \<and>
   fst (execs kepler69 before_masking (initial ())) = None \<and>
   env (snd (execs kepler69 before_masking (initial ()))) ''lc''
     = Some (VArray [VObj 1, VObj 2, VObj 3, VObj 4]) \<and>
   env (snd (run kepler69 part_001 ())) ''lc'' = Some (VArray [VObj 1, VObj 2, VObj 3, VObj 4]) \<and>
   env (snd (run kepler69 part_001 ())) ''masked_lc'' = Some (VArray [VObj 1, VObj 3, VObj 4]) \<and>
   fst (eval kepler69 (Subscript (Name ''lc'') (Name ''planet_b_mask''))
          (snd (exec kepler69 masking (snd (execs kepler69 before_masking (initial ()))))))
     = Inr (VArray [VObj 2])"
proof -
  obtain r s where e: "execs kepler69 before_masking (initial ()) = (r, s)"
    by (cases "execs kepler69 before_masking (initial ())")
  with kepler69_before_masking have r: "r = None"
    and lc: "env s ''lc'' = Some (VArray [VObj 1, VObj 2, VObj 3, VObj 4])"
    and m: "env s ''planet_b_mask'' = Some (VArray [VConst (CBool False), VConst (CBool True),
          VConst (CBool False), VConst (CBool False)])"
    by simp_all
  have f: "list_all is_flag [VConst (CBool False), VConst (CBool True), VConst (CBool False),
      VConst (CBool False)]" by simp
  have l: "length [VConst (CBool False), VConst (CBool True), VConst (CBool False),
      VConst (CBool False)] = length [VObj 1, VObj 2, VObj 3, VObj 4]" by simp
  from masking_keeps_lc[OF numpy_masks_kepler69 e[unfolded r] lc m f l]
  show ?thesis using numpy_masks_kepler69 e r lc
    by (simp del: eval.simps evals.simps exec.simps execs.simps)
qed

end
